theory Spec2Isabelle
  imports Main
begin

section \<open>Session authority of \<^verbatim>\<open>server.js\<close>\<close>

text \<open>
  The handlers of \<^verbatim>\<open>server.js\<close> are modelled as functions from the request, the process
  environment and the tables they touch to the HTTP response, the tables afterwards and
  the list of effects performed, in the order the source performs them. Everything the
  source takes from outside is an argument: the clock (\<^verbatim>\<open>Date.now()\<close>, in milliseconds, one
  reading per request, shared with the \<^verbatim>\<open>CURRENT_TIMESTAMP\<close> default of the tables), the
  identifier returned by \<^verbatim>\<open>uuidv4()\<close> and the draw behind \<^verbatim>\<open>Math.random()\<close>. Request
  fields are strings; session identifiers are well-formed UUID strings. A string is a
  list of \<open>char\<close>, one for each code unit of the JavaScript string. A statement of the
  database fails only where a constraint of \<^verbatim>\<open>setup-db.js\<close> rejects it.
\<close>

subsection \<open>Tables (\<^verbatim>\<open>scripts/setup-db.js\<close>)\<close>

datatype role = super_admin | company_admin

record auth_code_row =
  ac_code :: string
  ac_expires_at :: int

record session_row =
  s_email :: string
  s_role :: role
  s_company_id :: "string option"
  s_created_at :: int
  s_expires_at :: int

record company_row =
  c_id :: string
  c_name :: string
  c_email :: string
  c_password :: string
  c_subscription_tier :: "string option"

text \<open>
  \<^verbatim>\<open>auth_codes\<close> has primary key \<^verbatim>\<open>email\<close> and \<^verbatim>\<open>sessions\<close> primary key \<^verbatim>\<open>id\<close>: both are maps
  from the key. \<^verbatim>\<open>companies\<close> is kept as the list of its rows, since the login query
  takes the first row of a result that may hold several. \<open>LOWER\<close> is the SQL function of
  that name as the database computes it: which letters it folds depends on the locale of
  the database, so it is a component of the database and no fixed function.
\<close>

record database =
  auth_codes :: "string \<rightharpoonup> auth_code_row"
  sessions :: "string \<rightharpoonup> session_row"
  companies :: "company_row list"
  LOWER :: "string \<Rightarrow> string"

subsection \<open>Process environment\<close>

record environment =
  ADMIN_BYPASS_CODE :: "string option"
  NODE_ENV :: "string option"
  DEBUG_MODE :: "string option"
  resend :: "(string \<Rightarrow> string \<Rightarrow> bool) option"

text \<open>
  \<open>resend\<close> is the mail client (\<open>None\<close> when \<^verbatim>\<open>RESEND_API_KEY\<close> is unset); applied to the
  recipient and the code it tells whether \<^verbatim>\<open>resend.emails.send\<close> returned without throwing.
\<close>

subsection \<open>Responses and effects\<close>

datatype body =
    Error string
  | CodeSent "string option"
  | SuperAdminSession string
  | CompanyAdminSession string string string string
  | Success

type_synonym response = "nat \<times> body"

text \<open>
  \<open>Error m\<close> is \<^verbatim>\<open>{ error: m }\<close>; \<open>CodeSent c\<close> is \<^verbatim>\<open>{ success: true, message: 'Verification
  code sent to email' }\<close> with the field \<^verbatim>\<open>code\<close> present when \<open>c\<close> is;
  \<open>SuperAdminSession sid\<close> is \<^verbatim>\<open>{ success: true, sessionId, role: 'super_admin' }\<close>;
  \<open>CompanyAdminSession sid cid name tier\<close> is \<^verbatim>\<open>{ success: true, sessionId, role:
  'company_admin', company: { id, name, subscriptionTier } }\<close>; \<open>Success\<close> is
  \<^verbatim>\<open>{ success: true }\<close>.
\<close>

datatype sql_statement =
    UpsertAuthCode string string int
  | SelectAuthCode string
  | DeleteAuthCode string
  | InsertSession string
  | SelectSession string
  | DeleteSession string
  | SelectCompanyLogin string string
  | SelectCompanyByEmail string
  | SelectAllCompanies
  | DeleteCompany string

datatype log_line =
    LogAuthCode string string
  | LogEmailSent
  | LogEmailFailed
  | LogBypass string
  | LogLoginAttempt string
  | LogPasswordMismatch string
  | LogNoCompany string
  | LogAvailableCompanies "string list"
  | LogError

datatype effect =
    GenerateAuthCode
  | Sql sql_statement
  | SendEmail string string
  | ConsoleLog log_line

abbreviation Unauthorized :: response where
  "Unauthorized \<equiv> (401, Error ''Unauthorized email'')"

abbreviation NoPendingChallenge :: response where
  "NoPendingChallenge \<equiv> (401, Error ''No pending verification'')"

abbreviation ChallengeExpired :: response where
  "ChallengeExpired \<equiv> (401, Error ''Code expired'')"

abbreviation InvalidCode :: response where
  "InvalidCode \<equiv> (401, Error ''Invalid code'')"

abbreviation InvalidCredentials :: response where
  "InvalidCredentials \<equiv> (401, Error ''Invalid credentials'')"

abbreviation DatabaseNotConfigured :: response where
  "DatabaseNotConfigured \<equiv> (500, Error ''Database not configured'')"

abbreviation ServerError :: response where
  "ServerError \<equiv> (500, Error ''Server error'')"

subsection \<open>Helpers\<close>

definition SUPER_ADMIN_EMAIL :: string where
  "SUPER_ADMIN_EMAIL = ''ml@feedbacknfc.com''"

text \<open>JavaScript truthiness of a value that is a string, \<^verbatim>\<open>undefined\<close> or \<^verbatim>\<open>null\<close>.\<close>

definition truthy :: "string option \<Rightarrow> bool" where
  "truthy v = (case v of None \<Rightarrow> False | Some s \<Rightarrow> s \<noteq> [])"

definition digit_char :: "nat \<Rightarrow> char" where
  "digit_char d =
     (if d = 0 then CHR ''0'' else if d = 1 then CHR ''1'' else if d = 2 then CHR ''2''
      else if d = 3 then CHR ''3'' else if d = 4 then CHR ''4'' else if d = 5 then CHR ''5''
      else if d = 6 then CHR ''6'' else if d = 7 then CHR ''7'' else if d = 8 then CHR ''8''
      else CHR ''9'')"

fun digits :: "nat \<Rightarrow> string" where
  "digits n = (if n < 10 then [digit_char n] else digits (n div 10) @ [digit_char (n mod 10)])"

declare digits.simps [simp del]

text \<open>Decimal rendering of an integral JavaScript number, as a template literal does it.\<close>

definition Number_toString :: "int \<Rightarrow> string" where
  "Number_toString i = (if i < 0 then CHR ''-'' # digits (nat (- i)) else digits (nat i))"

text \<open>
  \<^verbatim>\<open>generateAuthCode\<close>: \<^verbatim>\<open>Math.floor(100000 + Math.random() * 900000).toString()\<close>, where
  \<open>r\<close> is the integer part of \<^verbatim>\<open>Math.random() * 900000\<close>.
\<close>

definition generateAuthCode :: "nat \<Rightarrow> string" where
  "generateAuthCode r = digits (100000 + r)"

text \<open>
  \<^verbatim>\<open>INSERT INTO sessions\<close>: the primary key rejects an identifier already in the table, and
  the handler's \<^verbatim>\<open>catch\<close> turns the rejection into a 500 response.
\<close>

definition insert_session :: "database \<Rightarrow> string \<Rightarrow> session_row \<Rightarrow> database option" where
  "insert_session db sid row =
     (case sessions db sid of
        Some _ \<Rightarrow> None
      | None \<Rightarrow> Some (db\<lparr>sessions := (sessions db)(sid \<mapsto> row)\<rparr>))"

definition delete_auth_code :: "database \<Rightarrow> string \<Rightarrow> database" where
  "delete_auth_code db email = db\<lparr>auth_codes := (auth_codes db)(email := None)\<rparr>"

definition session_lifetime :: int where
  "session_lifetime = 24 * 60 * 60 * 1000"

subsection \<open>\<^verbatim>\<open>POST /api/auth/request-code\<close>\<close>

definition request_code ::
  "environment \<Rightarrow> database option \<Rightarrow> string \<Rightarrow> int \<Rightarrow> nat \<Rightarrow> response \<times> database option \<times> effect list"
where
  "request_code env sql email now r =
     (if email \<noteq> SUPER_ADMIN_EMAIL then (Unauthorized, sql, [])
      else
        let code = generateAuthCode r;
            expiresAt = now + 10 * 60 * 1000;
            stored = (case sql of
                        None \<Rightarrow> (None, [])
                      | Some db \<Rightarrow>
                          (Some (db\<lparr>auth_codes := (auth_codes db)
                                   (email \<mapsto> \<lparr>ac_code = code, ac_expires_at = expiresAt\<rparr>)\<rparr>),
                           [Sql (UpsertAuthCode email code expiresAt)]));
            mail = (case resend env of
                      None \<Rightarrow> []
                    | Some send \<Rightarrow>
                        [SendEmail email code,
                         ConsoleLog (if send email code then LogEmailSent else LogEmailFailed)]);
            debugMode = (DEBUG_MODE env = Some ''true'')
        in ((200, CodeSent (if debugMode then Some code else None)),
            fst stored,
            [GenerateAuthCode] @ snd stored @ [ConsoleLog (LogAuthCode email code)] @ mail))"

subsection \<open>\<^verbatim>\<open>POST /api/auth/verify-code\<close>\<close>

definition bypassCode :: "environment \<Rightarrow> string option" where
  "bypassCode env =
     (if truthy (ADMIN_BYPASS_CODE env) then ADMIN_BYPASS_CODE env
      else if NODE_ENV env \<noteq> Some ''production'' then Some ''000000'' else None)"

definition isBypass :: "environment \<Rightarrow> string \<Rightarrow> string \<Rightarrow> bool" where
  "isBypass env email code =
     (truthy (bypassCode env) \<and> Some code = bypassCode env \<and> email = SUPER_ADMIN_EMAIL)"

text \<open>The session both branches of the handler insert: no \<^verbatim>\<open>company_id\<close> column is given.\<close>

definition super_admin_session :: "string \<Rightarrow> int \<Rightarrow> session_row" where
  "super_admin_session email now =
     \<lparr>s_email = email, s_role = super_admin, s_company_id = None,
      s_created_at = now, s_expires_at = now + session_lifetime\<rparr>"

text \<open>The branch taken when \<^verbatim>\<open>isBypass\<close> holds.\<close>

definition bypass_login ::
  "database \<Rightarrow> string \<Rightarrow> int \<Rightarrow> string \<Rightarrow> response \<times> database option \<times> effect list"
where
  "bypass_login db email now sessionId =
     (case insert_session db sessionId (super_admin_session email now) of
        None \<Rightarrow>
          (ServerError, Some db,
           [ConsoleLog (LogBypass email), Sql (InsertSession sessionId), ConsoleLog LogError])
      | Some db' \<Rightarrow>
          ((200, SuperAdminSession sessionId), Some db',
           [ConsoleLog (LogBypass email), Sql (InsertSession sessionId)]))"

text \<open>The rest of the handler: verification against the stored row of \<^verbatim>\<open>auth_codes\<close>.\<close>

definition challenge_login ::
  "database \<Rightarrow> string \<Rightarrow> string \<Rightarrow> int \<Rightarrow> string \<Rightarrow> response \<times> database option \<times> effect list"
where
  "challenge_login db email code now sessionId =
     (case auth_codes db email of
        None \<Rightarrow> (NoPendingChallenge, Some db, [Sql (SelectAuthCode email)])
      | Some authData \<Rightarrow>
          if now > ac_expires_at authData then
            (ChallengeExpired, Some (delete_auth_code db email),
             [Sql (SelectAuthCode email), Sql (DeleteAuthCode email)])
          else if ac_code authData \<noteq> code then
            (InvalidCode, Some db, [Sql (SelectAuthCode email)])
          else
            (case insert_session db sessionId (super_admin_session email now) of
               None \<Rightarrow>
                 (ServerError, Some db,
                  [Sql (SelectAuthCode email), Sql (InsertSession sessionId), ConsoleLog LogError])
             | Some db' \<Rightarrow>
                 ((200, SuperAdminSession sessionId), Some (delete_auth_code db' email),
                  [Sql (SelectAuthCode email), Sql (InsertSession sessionId),
                   Sql (DeleteAuthCode email)])))"

definition verify_code ::
  "environment \<Rightarrow> database option \<Rightarrow> string \<Rightarrow> string \<Rightarrow> int \<Rightarrow> string
     \<Rightarrow> response \<times> database option \<times> effect list"
where
  "verify_code env sql email code now sessionId =
     (case sql of
        None \<Rightarrow> (DatabaseNotConfigured, None, [])
      | Some db \<Rightarrow>
          if isBypass env email code then bypass_login db email now sessionId
          else challenge_login db email code now sessionId)"

subsection \<open>\<^verbatim>\<open>POST /api/auth/company-login\<close>\<close>

text \<open>
  The \<^verbatim>\<open>LOWER\<close> of a database in the locale \<^verbatim>\<open>C\<close>: the letters \<^verbatim>\<open>A\<close> to \<^verbatim>\<open>Z\<close> are folded and every
  other character is left as it is. It is the folding of the example databases; the
  handler is defined over the \<open>LOWER\<close> of whatever database it is given.
\<close>

definition lower_char :: "char \<Rightarrow> char" where
  "lower_char c =
     (let n = (of_char c :: nat) in if 65 \<le> n \<and> n \<le> 90 then char_of (n + 32) else c)"

definition ascii_lower :: "string \<Rightarrow> string" where
  "ascii_lower s = map lower_char s"

definition company_admin_session :: "string \<Rightarrow> string \<Rightarrow> int \<Rightarrow> session_row" where
  "company_admin_session email company_id now =
     \<lparr>s_email = email, s_role = company_admin, s_company_id = Some company_id,
      s_created_at = now, s_expires_at = now + session_lifetime\<rparr>"

definition subscriptionTier :: "company_row \<Rightarrow> string" where
  "subscriptionTier c =
     (if truthy (c_subscription_tier c) then the (c_subscription_tier c) else ''basic'')"

definition company_login ::
  "database option \<Rightarrow> string \<Rightarrow> string \<Rightarrow> int \<Rightarrow> string
     \<Rightarrow> response \<times> database option \<times> effect list"
where
  "company_login sql email password now sessionId =
     (case sql of
        None \<Rightarrow> (DatabaseNotConfigured, None, [])
      | Some db \<Rightarrow>
          let result = filter (\<lambda>c. LOWER db (c_email c) = LOWER db email \<and> c_password c = password)
                         (companies db)
          in (case result of
                [] \<Rightarrow>
                  let companyCheck = filter (\<lambda>c. LOWER db (c_email c) = LOWER db email) (companies db)
                  in (InvalidCredentials, Some db,
                      [ConsoleLog (LogLoginAttempt email),
                       Sql (SelectCompanyLogin email password),
                       Sql (SelectCompanyByEmail email)] @
                      (if companyCheck \<noteq> [] then [ConsoleLog (LogPasswordMismatch email)]
                       else [ConsoleLog (LogNoCompany email), Sql SelectAllCompanies,
                             ConsoleLog (LogAvailableCompanies (map c_email (companies db)))]))
              | company # _ \<Rightarrow>
                  (case insert_session db sessionId
                          (company_admin_session email (c_id company) now) of
                     None \<Rightarrow>
                       (ServerError, Some db,
                        [ConsoleLog (LogLoginAttempt email),
                         Sql (SelectCompanyLogin email password),
                         Sql (InsertSession sessionId), ConsoleLog LogError])
                   | Some db' \<Rightarrow>
                       ((200, CompanyAdminSession sessionId (c_id company) (c_name company)
                                (subscriptionTier company)),
                        Some db',
                        [ConsoleLog (LogLoginAttempt email),
                         Sql (SelectCompanyLogin email password),
                         Sql (InsertSession sessionId)]))))"

subsection \<open>\<^verbatim>\<open>POST /api/auth/logout\<close>\<close>

text \<open>\<open>sessionId\<close> is the header \<^verbatim>\<open>x-session-id\<close>, absent or a string.\<close>

definition logout ::
  "database option \<Rightarrow> string option \<Rightarrow> response \<times> database option \<times> effect list"
where
  "logout sql sessionId =
     (case sql of
        Some db \<Rightarrow>
          if truthy sessionId then
            ((200, Success), Some (db\<lparr>sessions := (sessions db)(the sessionId := None)\<rparr>),
             [Sql (DeleteSession (the sessionId))])
          else ((200, Success), sql, [])
      | None \<Rightarrow> ((200, Success), sql, []))"

subsection \<open>\<^verbatim>\<open>requireAuth\<close> and \<^verbatim>\<open>DELETE /api/companies/:id\<close>\<close>

text \<open>
  The middleware either answers itself (\<open>Inl\<close>) or hands the session's role to the route
  (\<open>Inr\<close>); a row is found when its \<^verbatim>\<open>expires_at\<close> is later than the clock.
\<close>

definition requireAuth :: "database option \<Rightarrow> string option \<Rightarrow> int \<Rightarrow> response + role" where
  "requireAuth sql sessionId now =
     (case sql of
        None \<Rightarrow> Inl (401, Error ''Unauthorized'')
      | Some db \<Rightarrow>
          if \<not> truthy sessionId then Inl (401, Error ''Unauthorized'')
          else (case sessions db (the sessionId) of
                  None \<Rightarrow> Inl (401, Error ''Session expired'')
                | Some s \<Rightarrow>
                    if s_expires_at s > now then Inr (s_role s)
                    else Inl (401, Error ''Session expired'')))"

text \<open>
  Deleting a company deletes, through \<^verbatim>\<open>ON DELETE CASCADE\<close>, the sessions bound to it.
\<close>

definition cascade_sessions :: "(string \<rightharpoonup> session_row) \<Rightarrow> string \<Rightarrow> (string \<rightharpoonup> session_row)" where
  "cascade_sessions ss cid =
     (\<lambda>k. case ss k of
             None \<Rightarrow> None
           | Some s \<Rightarrow> if s_company_id s = Some cid then None else Some s)"

definition delete_company ::
  "database option \<Rightarrow> string option \<Rightarrow> string \<Rightarrow> int \<Rightarrow> response \<times> database option \<times> effect list"
where
  "delete_company sql sessionId cid now =
     (case requireAuth sql sessionId now of
        Inl r \<Rightarrow> (r, sql, if sql \<noteq> None \<and> truthy sessionId then [Sql (SelectSession (the sessionId))] else [])
      | Inr session_role \<Rightarrow>
          if session_role \<noteq> super_admin then
            ((403, Error ''Forbidden''), sql, [Sql (SelectSession (the sessionId))])
          else
            (case sql of
               None \<Rightarrow> (ServerError, sql, [])
             | Some db \<Rightarrow>
                 if filter (\<lambda>c. c_id c = cid) (companies db) = [] then
                   ((404, Error ''Company not found''), sql,
                    [Sql (SelectSession (the sessionId)), Sql (DeleteCompany cid)])
                 else
                   ((200, Success),
                    Some (db\<lparr>companies := filter (\<lambda>c. c_id c \<noteq> cid) (companies db),
                             sessions := cascade_sessions (sessions db) cid\<rparr>),
                    [Sql (SelectSession (the sessionId)), Sql (DeleteCompany cid)])))"

subsection \<open>Runs of the server\<close>

text \<open>
  A request to one of the routes that write \<^verbatim>\<open>auth_codes\<close> or \<^verbatim>\<open>sessions\<close>, together with
  what the handler reads from outside while serving it.
\<close>

datatype request =
    RequestCode string int nat
  | VerifyCode string string int string
  | CompanyLogin string string int string
  | Logout "string option"
  | DeleteCompanyReq "string option" string int

fun handle ::
  "environment \<Rightarrow> database option \<Rightarrow> request \<Rightarrow> response \<times> database option \<times> effect list"
where
  "handle env sql (RequestCode email now r) = request_code env sql email now r"
| "handle env sql (VerifyCode email code now sessionId) = verify_code env sql email code now sessionId"
| "handle env sql (CompanyLogin email password now sessionId) =
     company_login sql email password now sessionId"
| "handle env sql (Logout sessionId) = logout sql sessionId"
| "handle env sql (DeleteCompanyReq sessionId cid now) = delete_company sql sessionId cid now"

fun run :: "environment \<Rightarrow> database option \<Rightarrow> request list \<Rightarrow> database option" where
  "run env sql [] = sql"
| "run env sql (q # qs) = run env (fst (snd (handle env sql q))) qs"

text \<open>The invariant of a session row, and of a table of them.\<close>

definition session_ok :: "session_row \<Rightarrow> bool" where
  "session_ok s \<longleftrightarrow>
     s_expires_at s > s_created_at s \<and>
     (s_role s = company_admin \<longrightarrow> s_company_id s \<noteq> None) \<and>
     (s_role s = super_admin \<longrightarrow> s_company_id s = None)"

definition sessions_inv :: "database option \<Rightarrow> bool" where
  "sessions_inv sql \<longleftrightarrow>
     (case sql of None \<Rightarrow> True | Some db \<Rightarrow> \<forall>sid s. sessions db sid = Some s \<longrightarrow> session_ok s)"

section \<open>Wallet pass builders\<close>

subsection \<open>Configuration\<close>

text \<open>\<^verbatim>\<open>process.env.X || ''\<close>.\<close>

definition or_empty :: "string option \<Rightarrow> string" where
  "or_empty v = (if truthy v then the v else [])"

record google_wallet_config =
  issuerId :: string
  serviceAccountKey :: string
  classId :: string

record samsung_wallet_config =
  partnerId :: string
  cardId :: string
  certificateId :: string
  privateKey :: string

text \<open>
  The two configuration objects, from the values of \<^verbatim>\<open>GOOGLE_WALLET_ISSUER_ID\<close>,
  \<^verbatim>\<open>GOOGLE_WALLET_SERVICE_ACCOUNT_KEY\<close> and of \<^verbatim>\<open>SAMSUNG_WALLET_PARTNER_ID\<close>,
  \<^verbatim>\<open>SAMSUNG_WALLET_CARD_ID\<close>, \<^verbatim>\<open>SAMSUNG_WALLET_CERTIFICATE_ID\<close>, \<^verbatim>\<open>SAMSUNG_WALLET_PRIVATE_KEY\<close>.
\<close>

definition GOOGLE_WALLET_CONFIG :: "string option \<Rightarrow> string option \<Rightarrow> google_wallet_config" where
  "GOOGLE_WALLET_CONFIG issuer key =
     \<lparr>issuerId = or_empty issuer, serviceAccountKey = or_empty key, classId = ''BusinessCard''\<rparr>"

definition SAMSUNG_WALLET_CONFIG ::
  "string option \<Rightarrow> string option \<Rightarrow> string option \<Rightarrow> string option \<Rightarrow> samsung_wallet_config"
where
  "SAMSUNG_WALLET_CONFIG partner_id card_id certificate_id key =
     \<lparr>partnerId = or_empty partner_id, cardId = or_empty card_id,
      certificateId = or_empty certificate_id, privateKey = or_empty key\<rparr>"

definition google_isConfigured :: "google_wallet_config \<Rightarrow> bool" where
  "google_isConfigured cfg \<longleftrightarrow> issuerId cfg \<noteq> [] \<and> serviceAccountKey cfg \<noteq> []"

definition samsung_isConfigured :: "samsung_wallet_config \<Rightarrow> bool" where
  "samsung_isConfigured cfg \<longleftrightarrow>
     partnerId cfg \<noteq> [] \<and> cardId cfg \<noteq> [] \<and> certificateId cfg \<noteq> [] \<and> privateKey cfg \<noteq> []"

subsection \<open>Inputs\<close>

record contact =
  contact_id :: string
  nameEn :: string
  positionEn :: string
  phone :: string
  contact_email :: string
  location :: "string option"

record company =
  company_name :: "string option"
  company_logo :: "string option"

subsection \<open>Payloads\<close>

record localized_string =
  language :: string
  text_value :: string

record text_module =
  module_id :: string
  module_header :: string
  module_body :: string

record pass_object =
  object_id :: string
  object_classId :: string
  cardTitle :: localized_string
  header :: localized_string
  subheader :: localized_string
  textModulesData :: "text_module list"
  hexBackgroundColor :: string

record google_claims =
  iss :: "string option"
  aud :: string
  claim_typ :: string
  origins :: "string list"
  genericObjects :: "pass_object list"

record samsung_attributes =
  title :: string
  subtitle :: string
  idType :: string
  idNumber :: string
  attr_name :: string
  data1 :: string
  data2 :: string
  data3 :: string
  data4 :: string
  bgColor :: string
  fontColor :: string

record app_link_data =
  appLinkType :: string
  androidPackageName :: string
  appLinkLogo :: string

record samsung_card_entry =
  refId :: string
  createdAt :: int
  updatedAt :: int
  entry_language :: string
  attributes :: samsung_attributes
  appLinkData :: app_link_data
  logoImageUrl :: string

record samsung_card =
  card_type :: string
  subType :: string
  card_data :: "samsung_card_entry list"

record samsung_payload =
  payload_partnerId :: string
  payload_cardId :: string
  cardData :: samsung_card
  utcTimestamp :: int

datatype jwt_payload = GooglePayload google_claims | SamsungPayload samsung_payload

record jws_header =
  alg :: string
  header_typ :: string
  kid :: "string option"

subsection \<open>The platform the builders call\<close>

text \<open>
  What \<^verbatim>\<open>JSON.parse\<close> returns for the service account key, as far as the builder looks at
  it: \<^verbatim>\<open>null\<close>, or a value whose properties \<^verbatim>\<open>client_email\<close> and \<^verbatim>\<open>private_key\<close> are read
  (\<open>None\<close> for \<^verbatim>\<open>undefined\<close>).
\<close>

datatype credentials =
    JNull
  | JValue (client_email: "string option") (private_key: "string option")

text \<open>
  \<^verbatim>\<open>JSON.parse\<close>, \<^verbatim>\<open>fs.readFileSync\<close>, \<^verbatim>\<open>importPKCS8\<close> and \<^verbatim>\<open>new SignJWT(p).setProtectedHeader(h).sign(k)\<close>
  are library code; each is a parameter, with \<open>None\<close> where the call throws.
\<close>

record 'key platform =
  JSON_parse :: "string \<Rightarrow> credentials option"
  readFileSync :: "string \<Rightarrow> string option"
  importPKCS8 :: "string option \<Rightarrow> 'key option"
  SignJWT :: "jws_header \<Rightarrow> jwt_payload \<Rightarrow> 'key \<Rightarrow> string option"

datatype provider = Google | Samsung

datatype wallet_error =
    ProviderNotConfigured provider
  | FileReadError
  | JsonSyntaxError
  | NullCredentials
  | KeyImportError
  | SigningError

text \<open>
  \<open>ProviderNotConfigured\<close> is the \<^verbatim>\<open>Error\<close> thrown ahead of the \<^verbatim>\<open>try\<close> block; the others are
  what the block rethrows: a failed \<^verbatim>\<open>readFileSync\<close>, a failed second \<^verbatim>\<open>JSON.parse\<close>, the
  \<^verbatim>\<open>TypeError\<close> of reading \<^verbatim>\<open>client_email\<close> from \<^verbatim>\<open>null\<close>, a rejected \<^verbatim>\<open>importPKCS8\<close> and a
  rejected \<^verbatim>\<open>sign\<close>.
\<close>

datatype wallet_effect =
    JsonParse string
  | ReadFile string
  | ImportKey "string option"
  | Sign jws_header jwt_payload
  | LogWalletError

subsection \<open>\<^verbatim>\<open>generateGoogleWalletJWT\<close>\<close>

text \<open>The character class \<^verbatim>\<open>[a-zA-Z0-9_-]\<close> and the replacement of everything outside it.\<close>

definition allowed_char :: "char \<Rightarrow> bool" where
  "allowed_char c =
     (let n = (of_char c :: nat)
      in (97 \<le> n \<and> n \<le> 122) \<or> (65 \<le> n \<and> n \<le> 90) \<or> (48 \<le> n \<and> n \<le> 57) \<or>
         c = CHR ''_'' \<or> c = CHR ''-'')"

definition sanitize :: "string \<Rightarrow> string" where
  "sanitize s = map (\<lambda>c. if allowed_char c then c else CHR ''_'') s"

definition uniqueId :: "contact \<Rightarrow> int \<Rightarrow> string" where
  "uniqueId c now = sanitize (take 20 (contact_id c) @ ''_'' @ Number_toString now)"

definition objectId :: "google_wallet_config \<Rightarrow> contact \<Rightarrow> int \<Rightarrow> string" where
  "objectId cfg c now = issuerId cfg @ ''.'' @ uniqueId c now"

definition en :: "string \<Rightarrow> localized_string" where
  "en v = \<lparr>language = ''en'', text_value = v\<rparr>"

definition passObject :: "google_wallet_config \<Rightarrow> contact \<Rightarrow> company \<Rightarrow> int \<Rightarrow> pass_object" where
  "passObject cfg c co now =
     \<lparr>object_id = objectId cfg c now,
      object_classId = issuerId cfg @ ''.'' @ classId cfg,
      cardTitle = en (nameEn c),
      header = en (if truthy (company_name co) then the (company_name co) else ''Business Card''),
      subheader = en (positionEn c),
      textModulesData =
        [\<lparr>module_id = ''phone'', module_header = ''Phone'', module_body = phone c\<rparr>,
         \<lparr>module_id = ''email'', module_header = ''Email'', module_body = contact_email c\<rparr>],
      hexBackgroundColor = ''#22C55E''\<rparr>"

definition claims :: "string option \<Rightarrow> pass_object \<Rightarrow> google_claims" where
  "claims issuer obj =
     \<lparr>iss = issuer, aud = ''google'', claim_typ = ''savetowallet'',
      origins = [''https://bc.feedbacknfc.com'', ''http://localhost:3000''],
      genericObjects = [obj]\<rparr>"

definition google_header :: jws_header where
  "google_header = \<lparr>alg = ''RS256'', header_typ = ''JWT'', kid = None\<rparr>"

text \<open>
  The inner \<^verbatim>\<open>try\<close>/\<^verbatim>\<open>catch\<close>: the configured key is parsed as JSON, and only when that
  throws is it taken as a path, read and parsed.
\<close>

definition parse_credentials ::
  "'key platform \<Rightarrow> string \<Rightarrow> (wallet_error + credentials) \<times> wallet_effect list"
where
  "parse_credentials P key =
     (case JSON_parse P key of
        Some credentials \<Rightarrow> (Inr credentials, [JsonParse key])
      | None \<Rightarrow>
          (case readFileSync P key of
             None \<Rightarrow> (Inl FileReadError, [JsonParse key, ReadFile key])
           | Some keyContent \<Rightarrow>
               (case JSON_parse P keyContent of
                  None \<Rightarrow> (Inl JsonSyntaxError, [JsonParse key, ReadFile key, JsonParse keyContent])
                | Some credentials \<Rightarrow>
                    (Inr credentials, [JsonParse key, ReadFile key, JsonParse keyContent]))))"

text \<open>The import of the key and the signature, shared by the two builders.\<close>

definition import_and_sign ::
  "'key platform \<Rightarrow> string option \<Rightarrow> jws_header \<Rightarrow> jwt_payload
     \<Rightarrow> (wallet_error + string) \<times> wallet_effect list"
where
  "import_and_sign P pkcs8 h payload =
     (case importPKCS8 P pkcs8 of
        None \<Rightarrow> (Inl KeyImportError, [ImportKey pkcs8, LogWalletError])
      | Some k \<Rightarrow>
          (case SignJWT P h payload k of
             None \<Rightarrow> (Inl SigningError, [ImportKey pkcs8, Sign h payload, LogWalletError])
           | Some token \<Rightarrow> (Inr token, [ImportKey pkcs8, Sign h payload])))"

definition generateGoogleWalletJWT ::
  "'key platform \<Rightarrow> google_wallet_config \<Rightarrow> contact \<Rightarrow> company \<Rightarrow> int
     \<Rightarrow> (wallet_error + string) \<times> wallet_effect list"
where
  "generateGoogleWalletJWT P cfg c co now =
     (if \<not> google_isConfigured cfg then (Inl (ProviderNotConfigured Google), [])
      else
        (case parse_credentials P (serviceAccountKey cfg) of
           (Inl e, tr) \<Rightarrow> (Inl e, tr @ [LogWalletError])
         | (Inr JNull, tr) \<Rightarrow> (Inl NullCredentials, tr @ [LogWalletError])
         | (Inr (JValue issuer pkcs8), tr) \<Rightarrow>
             (let r = import_and_sign P pkcs8 google_header
                        (GooglePayload (claims issuer (passObject cfg c co now)))
              in (fst r, tr @ snd r))))"

subsection \<open>\<^verbatim>\<open>generateSamsungWalletToken\<close>\<close>

definition logo_url :: "string option \<Rightarrow> company \<Rightarrow> string" where
  "logo_url BASE_URL co =
     (if truthy (company_logo co) then
        (if truthy BASE_URL then the BASE_URL else ''https://bc.feedbacknfc.com'') @
        the (company_logo co)
      else ''https://bc.feedbacknfc.com/logo.png'')"

definition samsung_cardData :: "string option \<Rightarrow> contact \<Rightarrow> company \<Rightarrow> int \<Rightarrow> samsung_card" where
  "samsung_cardData BASE_URL c co utc =
     \<lparr>card_type = ''IDCARD'', subType = ''others'',
      card_data =
        [\<lparr>refId = contact_id c, createdAt = utc, updatedAt = utc, entry_language = ''en'',
          attributes =
            \<lparr>title = nameEn c, subtitle = positionEn c, idType = ''Business Card'',
             idNumber = contact_id c, attr_name = nameEn c,
             data1 = or_empty (company_name co), data2 = phone c, data3 = contact_email c,
             data4 = or_empty (location c), bgColor = ''#22C55E'', fontColor = ''#FFFFFF''\<rparr>,
          appLinkData =
            \<lparr>appLinkType = ''DEEP_LINK'', androidPackageName = [],
             appLinkLogo = logo_url BASE_URL co\<rparr>,
          logoImageUrl = logo_url BASE_URL co\<rparr>]\<rparr>"

text \<open>
  The payload is serialised and parsed again before it is signed; on a value made of
  strings, numbers, arrays and objects only, that is the identity.
\<close>

definition samsung_jws_payload ::
  "samsung_wallet_config \<Rightarrow> string option \<Rightarrow> contact \<Rightarrow> company \<Rightarrow> int \<Rightarrow> samsung_payload"
where
  "samsung_jws_payload cfg BASE_URL c co utc =
     \<lparr>payload_partnerId = partnerId cfg, payload_cardId = cardId cfg,
      cardData = samsung_cardData BASE_URL c co utc, utcTimestamp = utc\<rparr>"

definition samsung_header :: "samsung_wallet_config \<Rightarrow> jws_header" where
  "samsung_header cfg = \<lparr>alg = ''RS256'', header_typ = ''JWT'', kid = Some (certificateId cfg)\<rparr>"

definition generateSamsungWalletToken ::
  "'key platform \<Rightarrow> samsung_wallet_config \<Rightarrow> string option \<Rightarrow> contact \<Rightarrow> company \<Rightarrow> int
     \<Rightarrow> (wallet_error + string) \<times> wallet_effect list"
where
  "generateSamsungWalletToken P cfg BASE_URL c co now =
     (if \<not> samsung_isConfigured cfg then (Inl (ProviderNotConfigured Samsung), [])
      else import_and_sign P (Some (privateKey cfg)) (samsung_header cfg)
             (SamsungPayload (samsung_jws_payload cfg BASE_URL c co now)))"

section \<open>Example data\<close>

text \<open>
  Three environments (nothing set; production with no bypass code; production with a
  bypass code) and two states of the tables, used to run the handlers on concrete requests.
\<close>

definition env_default :: environment where
  "env_default = \<lparr>ADMIN_BYPASS_CODE = None, NODE_ENV = None, DEBUG_MODE = None, resend = None\<rparr>"

definition env_production :: environment where
  "env_production = \<lparr>ADMIN_BYPASS_CODE = None, NODE_ENV = Some ''production'', DEBUG_MODE = None, resend = None\<rparr>"

definition env_bypass :: environment where
  "env_bypass = \<lparr>ADMIN_BYPASS_CODE = Some ''424242'', NODE_ENV = Some ''production'', DEBUG_MODE = None, resend = None\<rparr>"

definition db_empty :: database where
  "db_empty =
     \<lparr>auth_codes = Map.empty, sessions = Map.empty, companies = [], LOWER = ascii_lower\<rparr>"

definition db_pending :: database where
  "db_pending =
     \<lparr>auth_codes = [SUPER_ADMIN_EMAIL \<mapsto> \<lparr>ac_code = ''123456'', ac_expires_at = 600000\<rparr>],
      sessions = Map.empty, companies = [], LOWER = ascii_lower\<rparr>"

definition db_companies :: database where
  "db_companies =
     \<lparr>auth_codes = Map.empty, sessions = Map.empty,
      companies = [\<lparr>c_id = ''c1'', c_name = ''Acme'', c_email = ''Admin@Acme.com'',
                    c_password = ''secret'', c_subscription_tier = None\<rparr>],
      LOWER = ascii_lower\<rparr>"

text \<open>
  A contact and its company; the two providers configured with inline key material, with
  a path, and not at all; and a platform on which the inline forms parse, the two paths
  name files holding them, and every signature succeeds.
\<close>

definition jane :: contact where
  "jane = \<lparr>contact_id = ''jane-doe-1699999999999'', nameEn = ''Jane Doe'',
           positionEn = ''Engineer'', phone = ''+15550100'',
           contact_email = ''jane@acme.com'', location = None\<rparr>"

definition acme :: company where
  "acme = \<lparr>company_name = Some ''Acme'', company_logo = None\<rparr>"

definition google_inline :: google_wallet_config where
  "google_inline = GOOGLE_WALLET_CONFIG (Some ''3388000000022222222'') (Some ''service-account-json'')"

definition google_path :: google_wallet_config where
  "google_path = GOOGLE_WALLET_CONFIG (Some ''3388000000022222222'') (Some ''/run/secrets/google.json'')"

definition google_unset :: google_wallet_config where
  "google_unset = GOOGLE_WALLET_CONFIG None None"

definition samsung_inline :: samsung_wallet_config where
  "samsung_inline = SAMSUNG_WALLET_CONFIG (Some ''partner-1'') (Some ''card-1'') (Some ''cert-1'') (Some ''pem-text'')"

definition samsung_path :: samsung_wallet_config where
  "samsung_path =
     SAMSUNG_WALLET_CONFIG (Some ''partner-1'') (Some ''card-1'') (Some ''cert-1'')
       (Some ''/run/secrets/samsung.pem'')"

definition samsung_unset :: samsung_wallet_config where
  "samsung_unset = SAMSUNG_WALLET_CONFIG None None None None"

definition example_platform :: "nat platform" where
  "example_platform =
     \<lparr>JSON_parse = (\<lambda>s. if s = ''service-account-json''
                         then Some (JValue (Some ''wallet@acme.iam.gserviceaccount.com'') (Some ''pem-text''))
                         else None),
      readFileSync = (\<lambda>p. if p = ''/run/secrets/google.json'' then Some ''service-account-json''
                           else if p = ''/run/secrets/samsung.pem'' then Some ''pem-text''
                           else None),
      importPKCS8 = (\<lambda>k. if k = Some ''pem-text'' then Some 1 else None),
      SignJWT = (\<lambda>h p k. Some ''signed-token'')\<rparr>"

section \<open>Properties of the session authority\<close>

subsection \<open>Evaluation of decimal numerals\<close>

lemma digits_small: "n < 10 \<Longrightarrow> digits n = [digit_char n]"
  by (simp add: digits.simps)

lemma digits_large:
  "\<not> n < 10 \<Longrightarrow> digits n = digits (n div 10) @ [digit_char (n mod 10)]"
  by (subst digits.simps) simp

subsection \<open>Requesting a code\<close>

text \<open>
  Claim C7. For every identity other than the single privileged identity
  \<open>SUPER_ADMIN_EMAIL\<close>, the request-code operation answers 401 \<^verbatim>\<open>Unauthorized email\<close>; it
  performs no effect at all, so \<^verbatim>\<open>generateAuthCode\<close> is not called, and the tables are
  returned as they were, so no challenge is stored.
\<close>

theorem request_code_unauthorized:
  "email \<noteq> SUPER_ADMIN_EMAIL \<Longrightarrow> request_code env sql email now r = (Unauthorized, sql, [])"
  by (simp add: request_code_def)

text \<open>The theorem at the identity \<^verbatim>\<open>eve@example.com\<close>.\<close>

theorem request_code_unauthorized_witness:
  "''eve@example.com'' \<noteq> SUPER_ADMIN_EMAIL \<and>
   request_code env_default (Some db_empty) ''eve@example.com'' 1000 23456 = (Unauthorized, Some db_empty, [])"
proof -
  have ne: "''eve@example.com'' \<noteq> SUPER_ADMIN_EMAIL" by (simp add: SUPER_ADMIN_EMAIL_def)
  from request_code_unauthorized [OF ne] ne show ?thesis by simp
qed

subsection \<open>Verifying a code\<close>

lemma verify_code_no_bypass:
  "\<not> isBypass env email code \<Longrightarrow>
     verify_code env (Some db) email code now sid = challenge_login db email code now sid"
  by (simp add: verify_code_def)

lemma verify_code_bypass:
  "isBypass env email code \<Longrightarrow>
     verify_code env (Some db) email code now sid = bypass_login db email now sid"
  by (simp add: verify_code_def)

lemma challenge_login_none:
  "auth_codes db email = None \<Longrightarrow>
     challenge_login db email code now sid = (NoPendingChallenge, Some db, [Sql (SelectAuthCode email)])"
  by (simp add: challenge_login_def)

lemma challenge_login_expired:
  "auth_codes db email = Some ch \<Longrightarrow> now > ac_expires_at ch \<Longrightarrow>
     challenge_login db email code now sid =
       (ChallengeExpired, Some (delete_auth_code db email),
        [Sql (SelectAuthCode email), Sql (DeleteAuthCode email)])"
  by (simp add: challenge_login_def)

lemma challenge_login_mismatch:
  "auth_codes db email = Some ch \<Longrightarrow> \<not> now > ac_expires_at ch \<Longrightarrow> ac_code ch \<noteq> code \<Longrightarrow>
     challenge_login db email code now sid = (InvalidCode, Some db, [Sql (SelectAuthCode email)])"
  by (simp add: challenge_login_def)

lemma challenge_login_success:
  "auth_codes db email = Some ch \<Longrightarrow> \<not> now > ac_expires_at ch \<Longrightarrow> ac_code ch = code \<Longrightarrow>
   sessions db sid = None \<Longrightarrow>
     challenge_login db email code now sid =
       ((200, SuperAdminSession sid),
        Some (delete_auth_code (db\<lparr>sessions := (sessions db)(sid \<mapsto> super_admin_session email now)\<rparr>) email),
        [Sql (SelectAuthCode email), Sql (InsertSession sid), Sql (DeleteAuthCode email)])"
  by (simp add: challenge_login_def insert_session_def)

lemma auth_codes_delete [simp]: "auth_codes (delete_auth_code db email) email = None"
  by (simp add: delete_auth_code_def)

lemma sessions_delete [simp]: "sessions (delete_auth_code db email) = sessions db"
  by (simp add: delete_auth_code_def)

text \<open>
  Claim C1, for the requests that do not take the bypass branch, with the database
  configured. With no row for the identity the answer is \<open>NoPendingChallenge\<close> and
  nothing changes; with a row whose expiry the clock has passed the answer is
  \<open>ChallengeExpired\<close> and the row is deleted; with a live row and another code the answer
  is \<open>InvalidCode\<close> and nothing changes; with a live row, its code and a session
  identifier not in use, the answer is the new session, whose row has role \<open>super_admin\<close>,
  no company and an expiry 24 hours (86400000 ms) after the clock, the challenge row is
  deleted, and every later verification for that identity outside the bypass branch
  answers \<open>NoPendingChallenge\<close>.
\<close>

theorem verify_code_outcomes:
  assumes nb: "\<not> isBypass env email code"
  shows
    "(auth_codes db email = None \<longrightarrow>
        verify_code env (Some db) email code now sid =
          (NoPendingChallenge, Some db, [Sql (SelectAuthCode email)])) \<and>
     (\<forall>ch. auth_codes db email = Some ch \<and> now > ac_expires_at ch \<longrightarrow>
        verify_code env (Some db) email code now sid =
          (ChallengeExpired, Some (delete_auth_code db email),
           [Sql (SelectAuthCode email), Sql (DeleteAuthCode email)]) \<and>
        auth_codes (delete_auth_code db email) email = None) \<and>
     (\<forall>ch. auth_codes db email = Some ch \<and> \<not> now > ac_expires_at ch \<and> ac_code ch \<noteq> code \<longrightarrow>
        verify_code env (Some db) email code now sid =
          (InvalidCode, Some db, [Sql (SelectAuthCode email)])) \<and>
     (\<forall>ch. auth_codes db email = Some ch \<and> \<not> now > ac_expires_at ch \<and> ac_code ch = code \<and>
           sessions db sid = None \<longrightarrow>
        (\<exists>db'. verify_code env (Some db) email code now sid =
                 ((200, SuperAdminSession sid), Some db',
                  [Sql (SelectAuthCode email), Sql (InsertSession sid), Sql (DeleteAuthCode email)]) \<and>
               auth_codes db' email = None \<and>
               sessions db' sid =
                 Some \<lparr>s_email = email, s_role = super_admin, s_company_id = None,
                       s_created_at = now, s_expires_at = now + 86400000\<rparr> \<and>
               (\<forall>code2 now2 sid2. \<not> isBypass env email code2 \<longrightarrow>
                  fst (verify_code env (Some db') email code2 now2 sid2) = NoPendingChallenge)))"
proof (intro conjI allI impI)
  assume "auth_codes db email = None"
  then show "verify_code env (Some db) email code now sid =
          (NoPendingChallenge, Some db, [Sql (SelectAuthCode email)])"
    using nb by (simp add: verify_code_no_bypass challenge_login_none)
next
  fix ch assume "auth_codes db email = Some ch \<and> now > ac_expires_at ch"
  then show "verify_code env (Some db) email code now sid =
          (ChallengeExpired, Some (delete_auth_code db email),
           [Sql (SelectAuthCode email), Sql (DeleteAuthCode email)])"
    using nb by (simp add: verify_code_no_bypass challenge_login_expired)
next
  fix ch show "auth_codes (delete_auth_code db email) email = None" by simp
next
  fix ch assume "auth_codes db email = Some ch \<and> \<not> now > ac_expires_at ch \<and> ac_code ch \<noteq> code"
  then show "verify_code env (Some db) email code now sid =
          (InvalidCode, Some db, [Sql (SelectAuthCode email)])"
    using nb by (simp add: verify_code_no_bypass challenge_login_mismatch)
next
  fix ch
  assume h: "auth_codes db email = Some ch \<and> \<not> now > ac_expires_at ch \<and> ac_code ch = code \<and>
           sessions db sid = None"
  let ?db' = "delete_auth_code (db\<lparr>sessions := (sessions db)(sid \<mapsto> super_admin_session email now)\<rparr>) email"
  have 1: "verify_code env (Some db) email code now sid =
                 ((200, SuperAdminSession sid), Some ?db',
                  [Sql (SelectAuthCode email), Sql (InsertSession sid), Sql (DeleteAuthCode email)])"
    using nb h by (simp add: verify_code_no_bypass challenge_login_success)
  have 2: "auth_codes ?db' email = None" by simp
  have 3: "sessions ?db' sid =
                 Some \<lparr>s_email = email, s_role = super_admin, s_company_id = None,
                       s_created_at = now, s_expires_at = now + 86400000\<rparr>"
    by (simp add: super_admin_session_def session_lifetime_def)
  have 4: "\<forall>code2 now2 sid2. \<not> isBypass env email code2 \<longrightarrow>
                  fst (verify_code env (Some ?db') email code2 now2 sid2) = NoPendingChallenge"
    using 2 by (simp add: verify_code_no_bypass challenge_login_none)
  from 1 2 3 4
  show "\<exists>db'. verify_code env (Some db) email code now sid =
                 ((200, SuperAdminSession sid), Some db',
                  [Sql (SelectAuthCode email), Sql (InsertSession sid), Sql (DeleteAuthCode email)]) \<and>
               auth_codes db' email = None \<and>
               sessions db' sid =
                 Some \<lparr>s_email = email, s_role = super_admin, s_company_id = None,
                       s_created_at = now, s_expires_at = now + 86400000\<rparr> \<and>
               (\<forall>code2 now2 sid2. \<not> isBypass env email code2 \<longrightarrow>
                  fst (verify_code env (Some db') email code2 now2 sid2) = NoPendingChallenge)"
    by blast
qed

lemma no_bypass_in_production: "\<not> isBypass env_production email code"
  by (simp add: isBypass_def bypassCode_def env_production_def truthy_def)

text \<open>
  The four cases of the theorem in the production environment, on a table holding one
  challenge for the privileged identity: an identity without a row, a late request, a
  wrong code and the right code.
\<close>

theorem verify_code_outcomes_witness:
  "\<not> isBypass env_production SUPER_ADMIN_EMAIL ''123456'' \<and>
   auth_codes db_pending ''eve@example.com'' = None \<and>
   verify_code env_production (Some db_pending) ''eve@example.com'' ''123456'' 1000 ''s1'' =
     (NoPendingChallenge, Some db_pending, [Sql (SelectAuthCode ''eve@example.com'')]) \<and>
   fst (verify_code env_production (Some db_pending) SUPER_ADMIN_EMAIL ''123456'' 600001 ''s1'') =
     ChallengeExpired \<and>
   fst (verify_code env_production (Some db_pending) SUPER_ADMIN_EMAIL ''654321'' 1000 ''s1'') =
     InvalidCode \<and>
   fst (verify_code env_production (Some db_pending) SUPER_ADMIN_EMAIL ''123456'' 1000 ''s1'') =
     (200, SuperAdminSession ''s1'')"
proof -
  have eve: "auth_codes db_pending ''eve@example.com'' = None"
    by (simp add: db_pending_def SUPER_ADMIN_EMAIL_def)
  have adm: "auth_codes db_pending SUPER_ADMIN_EMAIL =
               Some \<lparr>ac_code = ''123456'', ac_expires_at = 600000\<rparr>"
    by (simp add: db_pending_def)
  have fresh: "sessions db_pending ''s1'' = None"
    by (simp add: db_pending_def)
  note nb = no_bypass_in_production
  from verify_code_outcomes [where env = env_production and email = "''eve@example.com''" and code = "''123456''"
      and db = db_pending and now = 1000 and sid = "''s1''", OF nb] eve
  have 1: "verify_code env_production (Some db_pending) ''eve@example.com'' ''123456'' 1000 ''s1'' =
     (NoPendingChallenge, Some db_pending, [Sql (SelectAuthCode ''eve@example.com'')])"
    by simp
  from verify_code_outcomes [where env = env_production and email = "SUPER_ADMIN_EMAIL" and code = "''123456''"
      and db = db_pending and now = 600001 and sid = "''s1''", OF nb] adm
  have 2: "fst (verify_code env_production (Some db_pending) SUPER_ADMIN_EMAIL ''123456'' 600001 ''s1'') =
     ChallengeExpired"
    by simp
  from verify_code_outcomes [where env = env_production and email = "SUPER_ADMIN_EMAIL" and code = "''654321''"
      and db = db_pending and now = 1000 and sid = "''s1''", OF nb] adm
  have 3: "fst (verify_code env_production (Some db_pending) SUPER_ADMIN_EMAIL ''654321'' 1000 ''s1'') =
     InvalidCode"
    by simp
  from verify_code_outcomes [where env = env_production and email = "SUPER_ADMIN_EMAIL" and code = "''123456''"
      and db = db_pending and now = 1000 and sid = "''s1''", OF nb] adm fresh
  have 4: "fst (verify_code env_production (Some db_pending) SUPER_ADMIN_EMAIL ''123456'' 1000 ''s1'') =
     (200, SuperAdminSession ''s1'')"
    by auto
  from nb eve 1 2 3 4 show ?thesis by blast
qed

text \<open>
  Claim C1 as stated fails on the bypass branch: with a bypass code configured, a request
  carrying it for the privileged identity is answered with a session although no
  challenge row exists.
\<close>

theorem verify_code_bypass_without_challenge:
  "auth_codes db_empty SUPER_ADMIN_EMAIL = None \<and>
   verify_code env_bypass (Some db_empty) SUPER_ADMIN_EMAIL ''424242'' 1000 ''s1'' =
     ((200, SuperAdminSession ''s1''),
      Some (db_empty\<lparr>sessions := [''s1'' \<mapsto> super_admin_session SUPER_ADMIN_EMAIL 1000]\<rparr>),
      [ConsoleLog (LogBypass SUPER_ADMIN_EMAIL), Sql (InsertSession ''s1'')]) \<and>
   fst (verify_code env_bypass (Some db_empty) SUPER_ADMIN_EMAIL ''424242'' 1000 ''s1'') \<noteq>
     NoPendingChallenge"
  by (simp add: verify_code_def isBypass_def bypassCode_def env_bypass_def truthy_def
        bypass_login_def insert_session_def db_empty_def)

subsection \<open>The bypass code\<close>

text \<open>
  Claim C2, as the code has it. When \<^verbatim>\<open>ADMIN_BYPASS_CODE\<close> is set to a non-empty string, the
  bypass branch is taken exactly by the requests that carry that string for the
  privileged identity. When it is unset or empty, the branch is taken exactly when
  \<^verbatim>\<open>NODE_ENV\<close> is not \<^verbatim>\<open>production\<close> (unset included) and the request carries the default
  \<^verbatim>\<open>000000\<close> for the privileged identity; in production the branch is then unreachable and
  the handler is the verification against the stored challenge.
\<close>

theorem bypass_gate:
  "(truthy (ADMIN_BYPASS_CODE env) \<longrightarrow>
      (isBypass env email code \<longleftrightarrow>
         Some code = ADMIN_BYPASS_CODE env \<and> email = SUPER_ADMIN_EMAIL)) \<and>
   (\<not> truthy (ADMIN_BYPASS_CODE env) \<longrightarrow>
      (isBypass env email code \<longleftrightarrow>
         NODE_ENV env \<noteq> Some ''production'' \<and> code = ''000000'' \<and> email = SUPER_ADMIN_EMAIL)) \<and>
   (\<not> truthy (ADMIN_BYPASS_CODE env) \<and> NODE_ENV env = Some ''production'' \<longrightarrow>
      verify_code env (Some db) email code now sid = challenge_login db email code now sid)"
  by (auto simp add: isBypass_def bypassCode_def truthy_def verify_code_def)

text \<open>The three cases of the theorem, one environment each.\<close>

theorem bypass_gate_witness:
  "truthy (ADMIN_BYPASS_CODE env_bypass) \<and>
   isBypass env_bypass SUPER_ADMIN_EMAIL ''424242'' \<and>
   \<not> truthy (ADMIN_BYPASS_CODE env_default) \<and>
   isBypass env_default SUPER_ADMIN_EMAIL ''000000'' \<and>
   \<not> truthy (ADMIN_BYPASS_CODE env_production) \<and> NODE_ENV env_production = Some ''production'' \<and>
   \<not> isBypass env_production SUPER_ADMIN_EMAIL ''000000'' \<and>
   verify_code env_production (Some db_empty) SUPER_ADMIN_EMAIL ''000000'' 1000 ''s1'' =
     challenge_login db_empty SUPER_ADMIN_EMAIL ''000000'' 1000 ''s1''"
proof -
  have a: "truthy (ADMIN_BYPASS_CODE env_bypass)" "Some ''424242'' = ADMIN_BYPASS_CODE env_bypass"
    by (simp_all add: env_bypass_def truthy_def)
  have b: "\<not> truthy (ADMIN_BYPASS_CODE env_default)" "NODE_ENV env_default \<noteq> Some ''production''"
    by (simp_all add: env_default_def truthy_def)
  have c: "\<not> truthy (ADMIN_BYPASS_CODE env_production)" "NODE_ENV env_production = Some ''production''"
    by (simp_all add: env_production_def truthy_def)
  from bypass_gate [of env_bypass SUPER_ADMIN_EMAIL "''424242''"] a
  have 1: "isBypass env_bypass SUPER_ADMIN_EMAIL ''424242''" by simp
  from bypass_gate [of env_default SUPER_ADMIN_EMAIL "''000000''"] b
  have 2: "isBypass env_default SUPER_ADMIN_EMAIL ''000000''" by simp
  from bypass_gate [of env_production SUPER_ADMIN_EMAIL "''000000''" db_empty 1000 "''s1''"] c
  have 3: "\<not> isBypass env_production SUPER_ADMIN_EMAIL ''000000''"
    and 4: "verify_code env_production (Some db_empty) SUPER_ADMIN_EMAIL ''000000'' 1000 ''s1'' =
     challenge_login db_empty SUPER_ADMIN_EMAIL ''000000'' 1000 ''s1''"
    by simp_all
  from a b c 1 2 3 4 show ?thesis by blast
qed

text \<open>
  Claim C2 as stated fails: in the environment where nothing is set, the request with the
  code \<^verbatim>\<open>000000\<close> for the privileged identity takes the bypass branch and is answered with
  a session.
\<close>

theorem bypass_enabled_by_default:
  "ADMIN_BYPASS_CODE env_default = None \<and> NODE_ENV env_default = None \<and>
   isBypass env_default SUPER_ADMIN_EMAIL ''000000'' \<and>
   verify_code env_default (Some db_empty) SUPER_ADMIN_EMAIL ''000000'' 1000 ''s1'' =
     bypass_login db_empty SUPER_ADMIN_EMAIL 1000 ''s1'' \<and>
   fst (verify_code env_default (Some db_empty) SUPER_ADMIN_EMAIL ''000000'' 1000 ''s1'') =
     (200, SuperAdminSession ''s1'')"
  by (simp add: verify_code_def isBypass_def bypassCode_def env_default_def truthy_def
        bypass_login_def insert_session_def db_empty_def)

lemma bypass_login_auth_codes:
  "bypass_login db email now sid = (r, sql', eff) \<Longrightarrow>
     (\<exists>db'. sql' = Some db' \<and> auth_codes db' = auth_codes db \<and> companies db' = companies db) \<and>
     (\<forall>e. Sql (SelectAuthCode e) \<notin> set eff \<and> Sql (DeleteAuthCode e) \<notin> set eff)"
  by (auto simp add: bypass_login_def insert_session_def split: option.splits)

lemma bypass_login_fresh:
  "sessions db sid = None \<Longrightarrow>
     bypass_login db email now sid =
       ((200, SuperAdminSession sid),
        Some (db\<lparr>sessions := (sessions db)(sid \<mapsto> super_admin_session email now)\<rparr>),
        [ConsoleLog (LogBypass email), Sql (InsertSession sid)])"
  by (simp add: bypass_login_def insert_session_def)

text \<open>
  Claim C10. When the bypass code is accepted, the handler leaves \<^verbatim>\<open>auth_codes\<close> as it
  was and issues neither the \<^verbatim>\<open>SELECT\<close> nor the \<^verbatim>\<open>DELETE\<close> on it; with an unused session
  identifier the answer is the new session. A challenge pending for the identity is
  therefore still there: a later request with its code, no later than its expiry and
  with an unused session identifier, is answered with a session.
\<close>

theorem bypass_keeps_challenge:
  assumes byp: "isBypass env email code"
  shows
    "\<exists>r db' eff.
       verify_code env (Some db) email code now sid = (r, Some db', eff) \<and>
       auth_codes db' = auth_codes db \<and>
       (\<forall>e. Sql (SelectAuthCode e) \<notin> set eff \<and> Sql (DeleteAuthCode e) \<notin> set eff) \<and>
       (sessions db sid = None \<longrightarrow> r = (200, SuperAdminSession sid)) \<and>
       (\<forall>ch now2 sid2.
          auth_codes db email = Some ch \<and> \<not> now2 > ac_expires_at ch \<and> sessions db' sid2 = None \<longrightarrow>
          fst (verify_code env (Some db') email (ac_code ch) now2 sid2) =
            (200, SuperAdminSession sid2))"
proof -
  obtain r sql' eff where v: "bypass_login db email now sid = (r, sql', eff)"
    by (cases "bypass_login db email now sid") auto
  from bypass_login_auth_codes [OF v] obtain db' where
    d: "sql' = Some db'" "auth_codes db' = auth_codes db"
    and e: "\<forall>e. Sql (SelectAuthCode e) \<notin> set eff \<and> Sql (DeleteAuthCode e) \<notin> set eff"
    by blast
  have 1: "verify_code env (Some db) email code now sid = (r, Some db', eff)"
    using byp v d by (simp add: verify_code_bypass)
  have 2: "sessions db sid = None \<longrightarrow> r = (200, SuperAdminSession sid)"
    using v by (auto simp add: bypass_login_fresh)
  have 3: "fst (verify_code env (Some db') email (ac_code ch) now2 sid2) =
            (200, SuperAdminSession sid2)"
    if h: "auth_codes db email = Some ch \<and> \<not> now2 > ac_expires_at ch \<and> sessions db' sid2 = None"
    for ch now2 sid2
  proof (cases "isBypass env email (ac_code ch)")
    case True
    then show ?thesis using h by (simp add: verify_code_bypass bypass_login_fresh)
  next
    case False
    then show ?thesis using h d by (simp add: verify_code_no_bypass challenge_login_success)
  qed
  from 3 have 4: "\<forall>ch now2 sid2.
          auth_codes db email = Some ch \<and> \<not> now2 > ac_expires_at ch \<and> sessions db' sid2 = None \<longrightarrow>
          fst (verify_code env (Some db') email (ac_code ch) now2 sid2) =
            (200, SuperAdminSession sid2)"
    by blast
  show ?thesis
    by (rule exI [of _ r], rule exI [of _ db'], rule exI [of _ eff]) (use 1 d(2) e 2 4 in blast)
qed

text \<open>
  A bypass login in the default environment over a pending challenge, followed by the
  verification of the challenge's own code.
\<close>

theorem bypass_keeps_challenge_witness:
  "isBypass env_default SUPER_ADMIN_EMAIL ''000000'' \<and>
   (\<exists>db' eff.
      verify_code env_default (Some db_pending) SUPER_ADMIN_EMAIL ''000000'' 1000 ''s1'' =
        ((200, SuperAdminSession ''s1''), Some db', eff) \<and>
      auth_codes db' SUPER_ADMIN_EMAIL = Some \<lparr>ac_code = ''123456'', ac_expires_at = 600000\<rparr> \<and>
      fst (verify_code env_default (Some db') SUPER_ADMIN_EMAIL ''123456'' 2000 ''s2'') =
        (200, SuperAdminSession ''s2''))"
proof -
  have byp: "isBypass env_default SUPER_ADMIN_EMAIL ''000000''"
    by (simp add: isBypass_def bypassCode_def env_default_def truthy_def)
  have adm: "auth_codes db_pending SUPER_ADMIN_EMAIL =
               Some \<lparr>ac_code = ''123456'', ac_expires_at = 600000\<rparr>"
    by (simp add: db_pending_def)
  have fresh: "sessions db_pending ''s1'' = None"
    by (simp add: db_pending_def)
  from bypass_keeps_challenge [OF byp, of db_pending 1000 "''s1''"] fresh
  obtain db' eff where
    1: "verify_code env_default (Some db_pending) SUPER_ADMIN_EMAIL ''000000'' 1000 ''s1'' =
          ((200, SuperAdminSession ''s1''), Some db', eff)"
    and 2: "auth_codes db' = auth_codes db_pending"
    and 3: "\<forall>ch now2 sid2.
          auth_codes db_pending SUPER_ADMIN_EMAIL = Some ch \<and> \<not> now2 > ac_expires_at ch \<and>
          sessions db' sid2 = None \<longrightarrow>
          fst (verify_code env_default (Some db') SUPER_ADMIN_EMAIL (ac_code ch) now2 sid2) =
            (200, SuperAdminSession sid2)"
    by auto
  have "Some db' = Some (db_pending\<lparr>sessions := (sessions db_pending)(''s1'' \<mapsto> super_admin_session SUPER_ADMIN_EMAIL 1000)\<rparr>)"
    using 1 byp fresh by (simp add: verify_code_bypass bypass_login_fresh)
  then have fresh2: "sessions db' ''s2'' = None"
    by (simp add: db_pending_def)
  from 3 adm fresh2
  have 4: "fst (verify_code env_default (Some db') SUPER_ADMIN_EMAIL ''123456'' 2000 ''s2'') =
        (200, SuperAdminSession ''s2'')"
    by fastforce
  from byp 1 2 adm 4 show ?thesis by auto
qed

subsection \<open>Company login\<close>

text \<open>
  Claim C8, with the database configured. A company-login request for which no stored
  company has both an email equal to the request's under the \<open>LOWER\<close> of the database and
  exactly the request's password is answered 401 \<^verbatim>\<open>Invalid credentials\<close>, and the database
  is left as it was. Every request that fails to match gets that same response, whether
  its email is unknown or only its password is wrong; the two causes differ in the
  console log alone.
\<close>

theorem company_login_invalid_credentials:
  assumes nomatch:
    "\<forall>c \<in> set (companies db).
       \<not> (LOWER db (c_email c) = LOWER db email \<and> c_password c = password)"
  shows
    "fst (company_login (Some db) email password now sid) = InvalidCredentials \<and>
     fst (snd (company_login (Some db) email password now sid)) = Some db \<and>
     (\<forall>email' password' now' sid'.
        (\<forall>c \<in> set (companies db).
           \<not> (LOWER db (c_email c) = LOWER db email' \<and> c_password c = password')) \<longrightarrow>
        fst (company_login (Some db) email' password' now' sid') =
          fst (company_login (Some db) email password now sid))"
proof -
  have empty:
    "filter (\<lambda>c. LOWER db (c_email c) = LOWER db e \<and> c_password c = p) (companies db) = []"
    if "\<forall>c \<in> set (companies db). \<not> (LOWER db (c_email c) = LOWER db e \<and> c_password c = p)"
    for e p
    using that by (simp add: filter_empty_conv)
  have fails: "company_login (Some db) e p n s =
      (InvalidCredentials, Some db, snd (snd (company_login (Some db) e p n s)))"
    if "\<forall>c \<in> set (companies db). \<not> (LOWER db (c_email c) = LOWER db e \<and> c_password c = p)"
    for e p n s
    using empty [OF that] by (simp add: company_login_def Let_def)
  from fails [OF nomatch, of now sid]
  have 1: "fst (company_login (Some db) email password now sid) = InvalidCredentials"
    and 2: "fst (snd (company_login (Some db) email password now sid)) = Some db"
    by (metis fst_conv, metis fst_conv snd_conv)
  have 3: "fst (company_login (Some db) e p n s) = fst (company_login (Some db) email password now sid)"
    if "\<forall>c \<in> set (companies db). \<not> (LOWER db (c_email c) = LOWER db e \<and> c_password c = p)"
    for e p n s
    using fails [OF that, of n s] 1 by (metis fst_conv)
  from 1 2 3 show ?thesis by blast
qed

text \<open>
  A wrong password for a known company and an unknown email, against a table holding
  one company, in a database of the locale \<^verbatim>\<open>C\<close>.
\<close>

theorem company_login_invalid_credentials_witness:
  "list_all
     (\<lambda>c. \<not> (LOWER db_companies (c_email c) = LOWER db_companies ''admin@acme.com'' \<and>
             c_password c = ''guess''))
     (companies db_companies) \<and>
   list_all
     (\<lambda>c. \<not> (LOWER db_companies (c_email c) = LOWER db_companies ''nobody@acme.com'' \<and>
             c_password c = ''secret''))
     (companies db_companies) \<and>
   fst (company_login (Some db_companies) ''admin@acme.com'' ''guess'' 1000 ''s1'') = InvalidCredentials \<and>
   fst (company_login (Some db_companies) ''nobody@acme.com'' ''secret'' 2000 ''s2'') =
     fst (company_login (Some db_companies) ''admin@acme.com'' ''guess'' 1000 ''s1'')"
proof -
  have l1: "ascii_lower ''Admin@Acme.com'' = ''admin@acme.com''" by code_simp
  have l2: "ascii_lower ''nobody@acme.com'' = ''nobody@acme.com''" by code_simp
  have a: "\<forall>c \<in> set (companies db_companies).
      \<not> (LOWER db_companies (c_email c) = LOWER db_companies ''admin@acme.com'' \<and>
         c_password c = ''guess'')"
    by (simp add: db_companies_def)
  have b: "\<forall>c \<in> set (companies db_companies).
      \<not> (LOWER db_companies (c_email c) = LOWER db_companies ''nobody@acme.com'' \<and>
         c_password c = ''secret'')"
    by (simp add: db_companies_def l1 l2)
  from company_login_invalid_credentials [OF a, of 1000 "''s1''"] a b show ?thesis
    by (simp add: list_all_iff)
qed

text \<open>
  Claim C8 as stated fails when the database is not configured: no company is stored, so
  the request matches none, and the handler answers 500 \<^verbatim>\<open>Database not configured\<close>
  ahead of any query.
\<close>

theorem company_login_without_database:
  "company_login None ''nobody@acme.com'' ''secret'' 1000 ''s1'' =
     (DatabaseNotConfigured, None, []) \<and>
   fst (company_login None ''nobody@acme.com'' ''secret'' 1000 ''s1'') \<noteq> InvalidCredentials"
  by (simp add: company_login_def)

subsection \<open>The invariant of the session table\<close>

lemma super_admin_session_ok: "session_ok (super_admin_session email now)"
  by (simp add: session_ok_def super_admin_session_def session_lifetime_def)

lemma company_admin_session_ok: "session_ok (company_admin_session email cid now)"
  by (simp add: session_ok_def company_admin_session_def session_lifetime_def)

lemma insert_session_inv:
  "sessions_inv (Some db) \<Longrightarrow> session_ok row \<Longrightarrow> insert_session db sid row = Some db' \<Longrightarrow>
     sessions_inv (Some db')"
  by (auto simp add: sessions_inv_def insert_session_def split: option.splits if_splits)

lemma delete_auth_code_inv:
  "sessions_inv (Some db) \<Longrightarrow> sessions_inv (Some (delete_auth_code db email))"
  by (simp add: sessions_inv_def)

lemma request_code_inv:
  "sessions_inv sql \<Longrightarrow> sessions_inv (fst (snd (request_code env sql email now r)))"
  by (cases sql) (auto simp add: request_code_def sessions_inv_def Let_def)

lemma bypass_login_inv:
  "sessions_inv (Some db) \<Longrightarrow> sessions_inv (fst (snd (bypass_login db email now sid)))"
  by (auto simp add: bypass_login_def split: option.splits
        intro: insert_session_inv [OF _ super_admin_session_ok])

lemma challenge_login_inv:
  "sessions_inv (Some db) \<Longrightarrow> sessions_inv (fst (snd (challenge_login db email code now sid)))"
  by (auto simp add: challenge_login_def split: option.splits
        intro: delete_auth_code_inv insert_session_inv [OF _ super_admin_session_ok])

lemma verify_code_inv:
  "sessions_inv sql \<Longrightarrow> sessions_inv (fst (snd (verify_code env sql email code now sid)))"
  by (cases sql) (simp_all add: verify_code_def bypass_login_inv challenge_login_inv)

lemma company_login_inv:
  "sessions_inv sql \<Longrightarrow> sessions_inv (fst (snd (company_login sql email password now sid)))"
  by (cases sql)
    (auto simp add: company_login_def Let_def split: list.splits option.splits
       intro: insert_session_inv [OF _ company_admin_session_ok])

lemma logout_inv: "sessions_inv sql \<Longrightarrow> sessions_inv (fst (snd (logout sql sessionId)))"
  by (cases sql) (auto simp add: logout_def sessions_inv_def)

lemma delete_company_inv:
  "sessions_inv sql \<Longrightarrow> sessions_inv (fst (snd (delete_company sql sessionId cid now)))"
  by (cases sql)
    (auto simp add: delete_company_def sessions_inv_def cascade_sessions_def
       split: sum.splits option.splits if_splits)

lemma handle_inv: "sessions_inv sql \<Longrightarrow> sessions_inv (fst (snd (handle env sql q)))"
  by (cases q)
    (simp_all add: request_code_inv verify_code_inv company_login_inv logout_inv
       delete_company_inv)

lemma run_inv: "sessions_inv sql \<Longrightarrow> sessions_inv (run env sql qs)"
  by (induction qs arbitrary: sql) (simp_all add: handle_inv)

lemma sessions_inv_empty: "sessions db = Map.empty \<Longrightarrow> sessions_inv (Some db)"
  by (simp add: sessions_inv_def)

text \<open>
  Claim C9. The row inserted by either branch of verify-code and the row inserted by
  company-login satisfy \<open>session_ok\<close>: the expiry is later than the creation time, a
  \<open>company_admin\<close> row has a company and a \<open>super_admin\<close> row has none. Every route that
  writes the session table (the two logins, logout, and the deletion of a company, which
  cascades to its sessions) keeps the invariant that all rows of the table satisfy
  \<open>session_ok\<close>, and so does every sequence of requests.
\<close>

theorem sessions_invariant:
  "session_ok (super_admin_session email now) \<and>
   session_ok (company_admin_session email cid now) \<and>
   (sessions_inv sql \<longrightarrow>
      sessions_inv (fst (snd (handle env sql q))) \<and> sessions_inv (run env sql qs))"
  by (simp add: super_admin_session_ok company_admin_session_ok handle_inv run_inv)

text \<open>
  A company login followed by a bypass login, from a table without sessions: both rows
  are in the table afterwards, and the invariant holds.
\<close>

theorem sessions_invariant_witness:
  "sessions_inv (Some db_companies) \<and>
   sessions_inv (run env_default (Some db_companies)
     [CompanyLogin ''admin@acme.com'' ''secret'' 1000 ''s1'',
      VerifyCode SUPER_ADMIN_EMAIL ''000000'' 2000 ''s2'']) \<and>
   (\<exists>db'. run env_default (Some db_companies)
            [CompanyLogin ''admin@acme.com'' ''secret'' 1000 ''s1'',
             VerifyCode SUPER_ADMIN_EMAIL ''000000'' 2000 ''s2''] = Some db' \<and>
          sessions db' ''s1'' = Some (company_admin_session ''admin@acme.com'' ''c1'' 1000) \<and>
          sessions db' ''s2'' = Some (super_admin_session SUPER_ADMIN_EMAIL 2000))"
proof -
  have l1: "ascii_lower ''Admin@Acme.com'' = ''admin@acme.com''" by code_simp
  have l2: "ascii_lower ''admin@acme.com'' = ''admin@acme.com''" by code_simp
  have init: "sessions_inv (Some db_companies)"
    by (simp add: sessions_inv_empty db_companies_def)
  have byp: "isBypass env_default SUPER_ADMIN_EMAIL ''000000''"
    by (simp add: isBypass_def bypassCode_def env_default_def truthy_def)
  have "run env_default (Some db_companies)
            [CompanyLogin ''admin@acme.com'' ''secret'' 1000 ''s1'',
             VerifyCode SUPER_ADMIN_EMAIL ''000000'' 2000 ''s2''] =
        Some (db_companies\<lparr>sessions :=
               [''s1'' \<mapsto> company_admin_session ''admin@acme.com'' ''c1'' 1000,
                ''s2'' \<mapsto> super_admin_session SUPER_ADMIN_EMAIL 2000]\<rparr>)"
    by (simp add: company_login_def db_companies_def l1 l2 insert_session_def
          verify_code_def byp bypass_login_def)
  with sessions_invariant [of _ _ _ "Some db_companies" env_default _
      "[CompanyLogin ''admin@acme.com'' ''secret'' 1000 ''s1'',
        VerifyCode SUPER_ADMIN_EMAIL ''000000'' 2000 ''s2'']"] init
  show ?thesis by simp
qed

section \<open>Properties of the pass builders\<close>

subsection \<open>Providers that are not configured\<close>

text \<open>
  Claim C3. For every contact and company, a builder whose provider is not configured
  fails with \<open>ProviderNotConfigured\<close> and performs no effect: no key is imported and
  nothing is signed.
\<close>

theorem not_configured_fails:
  "(\<not> google_isConfigured gcfg \<longrightarrow>
      generateGoogleWalletJWT P gcfg c co now = (Inl (ProviderNotConfigured Google), [])) \<and>
   (\<not> samsung_isConfigured scfg \<longrightarrow>
      generateSamsungWalletToken P scfg BASE_URL c co now = (Inl (ProviderNotConfigured Samsung), []))"
  by (simp add: generateGoogleWalletJWT_def generateSamsungWalletToken_def)

text \<open>Both builders with every variable of their provider unset.\<close>

theorem not_configured_fails_witness:
  "\<not> google_isConfigured google_unset \<and>
   generateGoogleWalletJWT example_platform google_unset jane acme 1700000000000 =
     (Inl (ProviderNotConfigured Google), []) \<and>
   \<not> samsung_isConfigured samsung_unset \<and>
   generateSamsungWalletToken example_platform samsung_unset None jane acme 1700000000000 =
     (Inl (ProviderNotConfigured Samsung), [])"
proof -
  have g: "\<not> google_isConfigured google_unset"
    by (simp add: google_isConfigured_def google_unset_def GOOGLE_WALLET_CONFIG_def or_empty_def truthy_def)
  have s: "\<not> samsung_isConfigured samsung_unset"
    by (simp add: samsung_isConfigured_def samsung_unset_def SAMSUNG_WALLET_CONFIG_def or_empty_def truthy_def)
  from not_configured_fails [of google_unset example_platform jane acme 1700000000000 samsung_unset None] g s
  show ?thesis by simp
qed

subsection \<open>The object identifier\<close>

lemma allowed_underscore: "allowed_char CHR ''_''"
  by (simp add: allowed_char_def)

lemma allowed_digit_char: "allowed_char (digit_char d)"
  by (simp add: allowed_char_def digit_char_def)

lemma digits_allowed: "x \<in> set (digits n) \<Longrightarrow> allowed_char x"
proof (induction n rule: digits.induct)
  case (1 n)
  show ?case
  proof (cases "n < 10")
    case True
    with "1.prems" show ?thesis by (simp add: digits_small allowed_digit_char)
  next
    case False
    with "1.prems" "1.IH" show ?thesis by (auto simp add: digits_large allowed_digit_char)
  qed
qed

lemma Number_toString_allowed: "x \<in> set (Number_toString i) \<Longrightarrow> allowed_char x"
  by (auto simp add: Number_toString_def allowed_char_def dest: digits_allowed split: if_splits)

lemma sanitize_allowed: "x \<in> set (sanitize s) \<Longrightarrow> allowed_char x"
  by (auto simp add: sanitize_def allowed_underscore)

lemma sanitize_append: "sanitize (a @ b) = sanitize a @ sanitize b"
  by (simp add: sanitize_def)

lemma sanitize_fixed: "(\<And>x. x \<in> set s \<Longrightarrow> allowed_char x) \<Longrightarrow> sanitize s = s"
  by (simp add: sanitize_def map_idI)

lemma uniqueId_split:
  "uniqueId c now = sanitize (take 20 (contact_id c)) @ ''_'' @ Number_toString now"
proof -
  have "sanitize (''_'' @ Number_toString now) = ''_'' @ Number_toString now"
    by (rule sanitize_fixed) (auto simp add: allowed_underscore dest: Number_toString_allowed)
  then show ?thesis by (simp add: uniqueId_def sanitize_append)
qed

text \<open>
  Claim C4. The identifier of the Google pass object is the configured issuer id, a dot,
  and the unique id; the unique id is the first 20 characters of the contact id (fewer
  when the id is shorter) with every character outside letters, digits, underscore and
  hyphen replaced by an underscore, then an underscore and the decimal timestamp; and
  every character of the unique id is a letter, a digit, an underscore or a hyphen.
\<close>

theorem google_object_id:
  "object_id (passObject cfg c co now) = issuerId cfg @ ''.'' @ uniqueId c now \<and>
   uniqueId c now = sanitize (take 20 (contact_id c)) @ ''_'' @ Number_toString now \<and>
   length (sanitize (take 20 (contact_id c))) \<le> 20 \<and>
   (\<forall>i < length (take 20 (contact_id c)).
      sanitize (take 20 (contact_id c)) ! i =
        (if allowed_char (contact_id c ! i) then contact_id c ! i else CHR ''_'')) \<and>
   (\<forall>x \<in> set (uniqueId c now). allowed_char x)"
proof (intro conjI)
  show "object_id (passObject cfg c co now) = issuerId cfg @ ''.'' @ uniqueId c now"
    by (simp add: passObject_def objectId_def)
  show "uniqueId c now = sanitize (take 20 (contact_id c)) @ ''_'' @ Number_toString now"
    by (rule uniqueId_split)
  show "length (sanitize (take 20 (contact_id c))) \<le> 20"
    by (simp add: sanitize_def)
  show "\<forall>i < length (take 20 (contact_id c)).
      sanitize (take 20 (contact_id c)) ! i =
        (if allowed_char (contact_id c ! i) then contact_id c ! i else CHR ''_'')"
    by (simp add: sanitize_def)
  show "\<forall>x \<in> set (uniqueId c now). allowed_char x"
    by (auto simp add: uniqueId_def dest: sanitize_allowed)
qed

text \<open>
  The contact \<^verbatim>\<open>jane-doe-1699999999999\<close> at the clock reading 1700000000000.
\<close>

theorem google_object_id_witness:
  "uniqueId jane 1700000000000 = ''jane-doe-16999999999_1700000000000'' \<and>
   object_id (passObject google_inline jane acme 1700000000000) =
     ''3388000000022222222.jane-doe-16999999999_1700000000000'' \<and>
   list_all allowed_char ''jane-doe-16999999999_1700000000000''"
proof -
  have t: "take 20 (contact_id jane) = ''jane-doe-16999999999''"
    by (simp add: jane_def)
  have s: "sanitize ''jane-doe-16999999999'' = ''jane-doe-16999999999''"
    by code_simp
  have n: "Number_toString 1700000000000 = ''1700000000000''"
    by (simp add: Number_toString_def digits_small digits_large digit_char_def)
  have i: "issuerId google_inline = ''3388000000022222222''"
    by (simp add: google_inline_def GOOGLE_WALLET_CONFIG_def or_empty_def truthy_def)
  from google_object_id [of google_inline jane acme 1700000000000]
  show ?thesis by (simp add: t s n i list_all_iff)
qed

subsection \<open>What is signed\<close>

lemma import_and_sign_Inr:
  "import_and_sign P pkcs8 h payload = (Inr token, tr) \<longleftrightarrow>
     (\<exists>k. importPKCS8 P pkcs8 = Some k \<and> SignJWT P h payload k = Some token) \<and>
     tr = [ImportKey pkcs8, Sign h payload]"
  by (auto simp add: import_and_sign_def split: option.splits)

lemma import_and_sign_no_read:
  "ReadFile p \<notin> set (snd (import_and_sign P pkcs8 h payload)) \<and>
   JsonParse p \<notin> set (snd (import_and_sign P pkcs8 h payload)) \<and>
   hd (snd (import_and_sign P pkcs8 h payload)) = ImportKey pkcs8"
  by (simp add: import_and_sign_def split: option.splits)

lemma generateGoogleWalletJWT_Inr:
  "generateGoogleWalletJWT P cfg c co now = (Inr jwt, tr) \<longleftrightarrow>
     google_isConfigured cfg \<and>
     (\<exists>cr tr0 k.
        parse_credentials P (serviceAccountKey cfg) = (Inr cr, tr0) \<and> cr \<noteq> JNull \<and>
        importPKCS8 P (private_key cr) = Some k \<and>
        SignJWT P google_header
          (GooglePayload (claims (client_email cr) (passObject cfg c co now))) k = Some jwt \<and>
        tr = tr0 @ [ImportKey (private_key cr),
                    Sign google_header
                      (GooglePayload (claims (client_email cr) (passObject cfg c co now)))])"
proof (cases "google_isConfigured cfg")
  case False
  then show ?thesis by (simp add: generateGoogleWalletJWT_def)
next
  case True
  obtain res tr0 where pc: "parse_credentials P (serviceAccountKey cfg) = (res, tr0)"
    by (cases "parse_credentials P (serviceAccountKey cfg)") auto
  show ?thesis
  proof (cases res)
    case (Inl e)
    with True pc show ?thesis by (simp add: generateGoogleWalletJWT_def)
  next
    case (Inr cr)
    show ?thesis
    proof (cases cr)
      case JNull
      with True pc Inr show ?thesis by (simp add: generateGoogleWalletJWT_def)
    next
      case (JValue issuer pkcs8)
      let ?X = "import_and_sign P pkcs8 google_header
                        (GooglePayload (claims issuer (passObject cfg c co now)))"
      have "generateGoogleWalletJWT P cfg c co now = (fst ?X, tr0 @ snd ?X)"
        using True pc Inr JValue by (simp add: generateGoogleWalletJWT_def Let_def)
      moreover have "(fst ?X = Inr jwt \<and> tr0 @ snd ?X = tr) \<longleftrightarrow>
         (\<exists>k. importPKCS8 P pkcs8 = Some k \<and>
            SignJWT P google_header (GooglePayload (claims issuer (passObject cfg c co now))) k = Some jwt \<and>
            tr = tr0 @ [ImportKey pkcs8,
                    Sign google_header (GooglePayload (claims issuer (passObject cfg c co now)))])"
        by (auto simp add: import_and_sign_def split: option.splits)
      ultimately show ?thesis using True pc Inr JValue by auto
    qed
  qed
qed

text \<open>
  Claim C5. The Google builder returns a token exactly when the provider is configured,
  credentials other than \<^verbatim>\<open>null\<close> are loaded, their \<^verbatim>\<open>private_key\<close> is imported and the
  signature succeeds; the token is then the signature, under the header \<open>google_header\<close>,
  of the envelope whose issuer is the \<^verbatim>\<open>client_email\<close> of the credentials, whose audience
  is \<^verbatim>\<open>google\<close>, whose type is \<^verbatim>\<open>savetowallet\<close>, whose list of origins is not empty and
  whose payload holds the pass object. The Samsung builder returns a token exactly when
  the provider is configured, its private key is imported and the signature succeeds;
  the token is then signed under a header whose \<^verbatim>\<open>kid\<close> is the configured certificate id.
\<close>

theorem signed_envelopes:
  "(generateGoogleWalletJWT P gcfg c co now = (Inr jwt, tr) \<longleftrightarrow>
      google_isConfigured gcfg \<and>
      (\<exists>cr tr0 k.
         parse_credentials P (serviceAccountKey gcfg) = (Inr cr, tr0) \<and> cr \<noteq> JNull \<and>
         importPKCS8 P (private_key cr) = Some k \<and>
         SignJWT P google_header
           (GooglePayload (claims (client_email cr) (passObject gcfg c co now))) k = Some jwt \<and>
         tr = tr0 @ [ImportKey (private_key cr),
                     Sign google_header
                       (GooglePayload (claims (client_email cr) (passObject gcfg c co now)))])) \<and>
   iss (claims (client_email cr) (passObject gcfg c co now)) = client_email cr \<and>
   aud (claims (client_email cr) (passObject gcfg c co now)) = ''google'' \<and>
   claim_typ (claims (client_email cr) (passObject gcfg c co now)) = ''savetowallet'' \<and>
   origins (claims (client_email cr) (passObject gcfg c co now)) \<noteq> [] \<and>
   genericObjects (claims (client_email cr) (passObject gcfg c co now)) =
     [passObject gcfg c co now] \<and>
   (generateSamsungWalletToken P scfg BASE_URL c co now = (Inr jws, tr') \<longleftrightarrow>
      samsung_isConfigured scfg \<and>
      (\<exists>k. importPKCS8 P (Some (privateKey scfg)) = Some k \<and>
           SignJWT P (samsung_header scfg)
             (SamsungPayload (samsung_jws_payload scfg BASE_URL c co now)) k = Some jws) \<and>
      tr' = [ImportKey (Some (privateKey scfg)),
             Sign (samsung_header scfg)
               (SamsungPayload (samsung_jws_payload scfg BASE_URL c co now))]) \<and>
   kid (samsung_header scfg) = Some (certificateId scfg)"
proof -
  have s: "generateSamsungWalletToken P scfg BASE_URL c co now = (Inr jws, tr') \<longleftrightarrow>
      samsung_isConfigured scfg \<and>
      (\<exists>k. importPKCS8 P (Some (privateKey scfg)) = Some k \<and>
           SignJWT P (samsung_header scfg)
             (SamsungPayload (samsung_jws_payload scfg BASE_URL c co now)) k = Some jws) \<and>
      tr' = [ImportKey (Some (privateKey scfg)),
             Sign (samsung_header scfg)
               (SamsungPayload (samsung_jws_payload scfg BASE_URL c co now))]"
    by (cases "samsung_isConfigured scfg")
      (simp_all add: generateSamsungWalletToken_def import_and_sign_Inr)
  show ?thesis
    by (simp add: generateGoogleWalletJWT_Inr s claims_def samsung_header_def)
qed

lemma example_google_inline:
  "google_isConfigured google_inline \<and> serviceAccountKey google_inline = ''service-account-json''"
  by (simp add: google_isConfigured_def google_inline_def GOOGLE_WALLET_CONFIG_def or_empty_def truthy_def)

lemma example_google_path:
  "google_isConfigured google_path \<and> serviceAccountKey google_path = ''/run/secrets/google.json''"
  by (simp add: google_isConfigured_def google_path_def GOOGLE_WALLET_CONFIG_def or_empty_def truthy_def)

lemma example_samsung_inline:
  "samsung_isConfigured samsung_inline \<and> privateKey samsung_inline = ''pem-text'' \<and>
   certificateId samsung_inline = ''cert-1''"
  by (simp add: samsung_isConfigured_def samsung_inline_def SAMSUNG_WALLET_CONFIG_def or_empty_def truthy_def)

lemma example_samsung_path:
  "samsung_isConfigured samsung_path \<and> privateKey samsung_path = ''/run/secrets/samsung.pem''"
  by (simp add: samsung_isConfigured_def samsung_path_def SAMSUNG_WALLET_CONFIG_def or_empty_def truthy_def)

text \<open>Both builders on the example platform, with inline key material.\<close>

theorem signed_envelopes_witness:
  "google_isConfigured google_inline \<and> samsung_isConfigured samsung_inline \<and>
   generateGoogleWalletJWT example_platform google_inline jane acme 1700000000000 =
     (Inr ''signed-token'',
      [JsonParse ''service-account-json'', ImportKey (Some ''pem-text''),
       Sign google_header
         (GooglePayload (claims (Some ''wallet@acme.iam.gserviceaccount.com'')
            (passObject google_inline jane acme 1700000000000)))]) \<and>
   generateSamsungWalletToken example_platform samsung_inline None jane acme 1700000000000 =
     (Inr ''signed-token'',
      [ImportKey (Some ''pem-text''),
       Sign (samsung_header samsung_inline)
         (SamsungPayload (samsung_jws_payload samsung_inline None jane acme 1700000000000))]) \<and>
   kid (samsung_header samsung_inline) = Some ''cert-1''"
proof -
  note g = example_google_inline
  note s = example_samsung_inline
  have pc: "parse_credentials example_platform ''service-account-json'' =
      (Inr (JValue (Some ''wallet@acme.iam.gserviceaccount.com'') (Some ''pem-text'')),
       [JsonParse ''service-account-json''])"
    by (simp add: parse_credentials_def example_platform_def)
  have ik: "importPKCS8 example_platform (Some ''pem-text'') = Some 1"
    by (simp add: example_platform_def)
  have sg: "SignJWT example_platform h p 1 = Some ''signed-token''" for h p
    by (simp add: example_platform_def)
  from signed_envelopes [where P = example_platform and gcfg = google_inline and c = jane
      and co = acme and now = 1700000000000 and jwt = "''signed-token''"
      and tr = "[JsonParse ''service-account-json'', ImportKey (Some ''pem-text''),
       Sign google_header
         (GooglePayload (claims (Some ''wallet@acme.iam.gserviceaccount.com'')
            (passObject google_inline jane acme 1700000000000)))]"
      and scfg = samsung_inline and BASE_URL = None and jws = "''signed-token''"
      and tr' = "[ImportKey (Some ''pem-text''),
       Sign (samsung_header samsung_inline)
         (SamsungPayload (samsung_jws_payload samsung_inline None jane acme 1700000000000))]"]
  show ?thesis
    using g s pc ik sg by auto
qed

subsection \<open>Inline key material and key files\<close>

lemma parse_credentials_inline:
  "JSON_parse P key = Some cr \<Longrightarrow> parse_credentials P key = (Inr cr, [JsonParse key])"
  by (simp add: parse_credentials_def)

lemma parse_credentials_file:
  "JSON_parse P key = None \<Longrightarrow> readFileSync P key = Some keyContent \<Longrightarrow>
   JSON_parse P keyContent = Some cr \<Longrightarrow>
     parse_credentials P key = (Inr cr, [JsonParse key, ReadFile key, JsonParse keyContent])"
  by (simp add: parse_credentials_def)

lemma parse_credentials_trace:
  "hd (snd (parse_credentials P key)) = JsonParse key \<and>
   (ReadFile p \<in> set (snd (parse_credentials P key)) \<longleftrightarrow> p = key \<and> JSON_parse P key = None)"
  by (auto simp add: parse_credentials_def split: option.splits)

lemma parse_credentials_nonempty: "snd (parse_credentials P key) \<noteq> []"
  by (simp add: parse_credentials_def split: option.splits)

lemma generateGoogleWalletJWT_trace:
  assumes "google_isConfigured cfg"
  shows "\<exists>rest. snd (generateGoogleWalletJWT P cfg c co now) =
                  snd (parse_credentials P (serviceAccountKey cfg)) @ rest \<and>
                (\<forall>p. ReadFile p \<notin> set rest)"
proof -
  obtain res tr0 where pc: "parse_credentials P (serviceAccountKey cfg) = (res, tr0)"
    by (cases "parse_credentials P (serviceAccountKey cfg)") auto
  show ?thesis
  proof (cases res)
    case (Inl e)
    with assms pc show ?thesis by (simp add: generateGoogleWalletJWT_def)
  next
    case (Inr cr)
    show ?thesis
    proof (cases cr)
      case JNull
      with assms pc Inr show ?thesis by (simp add: generateGoogleWalletJWT_def)
    next
      case (JValue issuer pkcs8)
      with assms pc Inr show ?thesis
        by (simp add: generateGoogleWalletJWT_def Let_def import_and_sign_no_read)
    qed
  qed
qed

lemma generateGoogleWalletJWT_same_credentials:
  assumes "google_isConfigured cfg" "google_isConfigured cfg'"
    and "issuerId cfg' = issuerId cfg" "classId cfg' = classId cfg"
    and "fst (parse_credentials P (serviceAccountKey cfg')) =
         fst (parse_credentials P (serviceAccountKey cfg))"
  shows "fst (generateGoogleWalletJWT P cfg' c co now) = fst (generateGoogleWalletJWT P cfg c co now)"
proof -
  obtain res tr0 where pc: "parse_credentials P (serviceAccountKey cfg) = (res, tr0)"
    by (cases "parse_credentials P (serviceAccountKey cfg)") auto
  obtain tr1 where pc': "parse_credentials P (serviceAccountKey cfg') = (res, tr1)"
    using assms(5) pc by (cases "parse_credentials P (serviceAccountKey cfg')") auto
  have po: "passObject cfg' c co now = passObject cfg c co now"
    using assms(3,4) by (simp add: passObject_def objectId_def)
  show ?thesis
    using assms(1,2) pc pc' po
    by (simp add: generateGoogleWalletJWT_def Let_def split: sum.splits credentials.splits)
qed

text \<open>
  Claim C6, as the code has it. The Google builder first parses the configured service
  account key as inline JSON; it reads the key as a file path exactly when that parse
  fails, and then parses the file's content; both forms are accepted, and a path to a
  file gives the result that the file's content gives inline. The Samsung builder never
  reads a file: it hands the configured private key to \<^verbatim>\<open>importPKCS8\<close> as it is, so its
  key is accepted as inline text only.
\<close>

theorem key_material_forms:
  "(JSON_parse P key = Some cr \<longrightarrow>
      parse_credentials P key = (Inr cr, [JsonParse key])) \<and>
   (JSON_parse P key = None \<and> readFileSync P key = Some keyContent \<and>
    JSON_parse P keyContent = Some cr \<longrightarrow>
      parse_credentials P key = (Inr cr, [JsonParse key, ReadFile key, JsonParse keyContent])) \<and>
   (google_isConfigured gcfg \<longrightarrow>
      hd (snd (generateGoogleWalletJWT P gcfg c co now)) = JsonParse (serviceAccountKey gcfg) \<and>
      (\<forall>p. ReadFile p \<in> set (snd (generateGoogleWalletJWT P gcfg c co now)) \<longleftrightarrow>
             p = serviceAccountKey gcfg \<and> JSON_parse P (serviceAccountKey gcfg) = None)) \<and>
   (google_isConfigured gcfg \<and> keyContent \<noteq> [] \<and>
    JSON_parse P (serviceAccountKey gcfg) = None \<and>
    readFileSync P (serviceAccountKey gcfg) = Some keyContent \<and>
    JSON_parse P keyContent \<noteq> None \<longrightarrow>
      fst (generateGoogleWalletJWT P gcfg c co now) =
      fst (generateGoogleWalletJWT P (gcfg\<lparr>serviceAccountKey := keyContent\<rparr>) c co now)) \<and>
   (\<forall>p. ReadFile p \<notin> set (snd (generateSamsungWalletToken P scfg BASE_URL c co now)) \<and>
        JsonParse p \<notin> set (snd (generateSamsungWalletToken P scfg BASE_URL c co now))) \<and>
   (samsung_isConfigured scfg \<longrightarrow>
      hd (snd (generateSamsungWalletToken P scfg BASE_URL c co now)) =
        ImportKey (Some (privateKey scfg)))"
proof (intro conjI impI allI)
  assume "JSON_parse P key = Some cr"
  then show "parse_credentials P key = (Inr cr, [JsonParse key])"
    by (rule parse_credentials_inline)
next
  assume "JSON_parse P key = None \<and> readFileSync P key = Some keyContent \<and>
    JSON_parse P keyContent = Some cr"
  then show "parse_credentials P key = (Inr cr, [JsonParse key, ReadFile key, JsonParse keyContent])"
    by (simp add: parse_credentials_file)
next
  assume g: "google_isConfigured gcfg"
  from generateGoogleWalletJWT_trace [OF g, of P c co now]
  show "hd (snd (generateGoogleWalletJWT P gcfg c co now)) = JsonParse (serviceAccountKey gcfg)"
    using parse_credentials_trace [where P = P and key = "serviceAccountKey gcfg"]
      parse_credentials_nonempty [of P "serviceAccountKey gcfg"]
    by auto
next
  fix p
  assume g: "google_isConfigured gcfg"
  from generateGoogleWalletJWT_trace [OF g, of P c co now]
  show "ReadFile p \<in> set (snd (generateGoogleWalletJWT P gcfg c co now)) \<longleftrightarrow>
             p = serviceAccountKey gcfg \<and> JSON_parse P (serviceAccountKey gcfg) = None"
    using parse_credentials_trace [where p = p and P = P and key = "serviceAccountKey gcfg"]
    by auto
next
  assume h: "google_isConfigured gcfg \<and> keyContent \<noteq> [] \<and>
    JSON_parse P (serviceAccountKey gcfg) = None \<and>
    readFileSync P (serviceAccountKey gcfg) = Some keyContent \<and>
    JSON_parse P keyContent \<noteq> None"
  then obtain cr' where cr': "JSON_parse P keyContent = Some cr'" by auto
  have "fst (parse_credentials P (serviceAccountKey gcfg)) = Inr cr'"
    using h cr' by (simp add: parse_credentials_file)
  moreover have "fst (parse_credentials P keyContent) = Inr cr'"
    using cr' by (simp add: parse_credentials_inline)
  moreover have "google_isConfigured (gcfg\<lparr>serviceAccountKey := keyContent\<rparr>)"
    using h by (simp add: google_isConfigured_def)
  ultimately
  show "fst (generateGoogleWalletJWT P gcfg c co now) =
      fst (generateGoogleWalletJWT P (gcfg\<lparr>serviceAccountKey := keyContent\<rparr>) c co now)"
    using h
      generateGoogleWalletJWT_same_credentials
        [of "gcfg\<lparr>serviceAccountKey := keyContent\<rparr>" gcfg P c co now]
    by simp
next
  fix p
  show "ReadFile p \<notin> set (snd (generateSamsungWalletToken P scfg BASE_URL c co now))"
    by (simp add: generateSamsungWalletToken_def import_and_sign_no_read)
next
  fix p
  show "JsonParse p \<notin> set (snd (generateSamsungWalletToken P scfg BASE_URL c co now))"
    by (simp add: generateSamsungWalletToken_def import_and_sign_no_read)
next
  assume "samsung_isConfigured scfg"
  then show "hd (snd (generateSamsungWalletToken P scfg BASE_URL c co now)) =
        ImportKey (Some (privateKey scfg))"
    by (simp add: generateSamsungWalletToken_def import_and_sign_no_read)
qed

text \<open>
  The Google builder with an inline key and with the path of a file holding it, and the
  Samsung builder with an inline key.
\<close>

theorem key_material_forms_witness:
  "JSON_parse example_platform ''service-account-json'' \<noteq> None \<and>
   JSON_parse example_platform ''/run/secrets/google.json'' = None \<and>
   readFileSync example_platform ''/run/secrets/google.json'' = Some ''service-account-json'' \<and>
   google_isConfigured google_inline \<and> google_isConfigured google_path \<and>
   samsung_isConfigured samsung_inline \<and>
   snd (parse_credentials example_platform ''service-account-json'') =
     [JsonParse ''service-account-json''] \<and>
   snd (parse_credentials example_platform ''/run/secrets/google.json'') =
     [JsonParse ''/run/secrets/google.json'', ReadFile ''/run/secrets/google.json'',
      JsonParse ''service-account-json''] \<and>
   ReadFile ''/run/secrets/google.json'' \<in>
     set (snd (generateGoogleWalletJWT example_platform google_path jane acme 1700000000000)) \<and>
   ReadFile ''service-account-json'' \<notin>
     set (snd (generateGoogleWalletJWT example_platform google_inline jane acme 1700000000000)) \<and>
   fst (generateGoogleWalletJWT example_platform google_path jane acme 1700000000000) =
     fst (generateGoogleWalletJWT example_platform google_inline jane acme 1700000000000) \<and>
   hd (snd (generateSamsungWalletToken example_platform samsung_inline None jane acme 1700000000000)) =
     ImportKey (Some ''pem-text'')"
proof -
  let ?cr = "JValue (Some ''wallet@acme.iam.gserviceaccount.com'') (Some ''pem-text'')"
  have a: "JSON_parse example_platform ''service-account-json'' = Some ?cr"
    by (simp add: example_platform_def)
  have b: "JSON_parse example_platform ''/run/secrets/google.json'' = None"
    by (simp add: example_platform_def)
  have f: "readFileSync example_platform ''/run/secrets/google.json'' = Some ''service-account-json''"
    by (simp add: example_platform_def)
  note gi = example_google_inline
  note gp = example_google_path
  note si = example_samsung_inline
  have upd: "google_path\<lparr>serviceAccountKey := ''service-account-json''\<rparr> = google_inline"
    by (simp add: google_path_def google_inline_def GOOGLE_WALLET_CONFIG_def or_empty_def truthy_def)
  from key_material_forms [where P = example_platform and key = "''service-account-json''"
      and cr = ?cr] a
  have 1: "snd (parse_credentials example_platform ''service-account-json'') =
     [JsonParse ''service-account-json'']"
    by simp
  from key_material_forms [where P = example_platform and key = "''/run/secrets/google.json''"
      and keyContent = "''service-account-json''" and cr = ?cr and gcfg = google_path
      and c = jane and co = acme and now = 1700000000000] a b f gp upd
  have 2: "snd (parse_credentials example_platform ''/run/secrets/google.json'') =
     [JsonParse ''/run/secrets/google.json'', ReadFile ''/run/secrets/google.json'',
      JsonParse ''service-account-json'']"
    and 3: "ReadFile ''/run/secrets/google.json'' \<in>
     set (snd (generateGoogleWalletJWT example_platform google_path jane acme 1700000000000))"
    and 4: "fst (generateGoogleWalletJWT example_platform google_path jane acme 1700000000000) =
     fst (generateGoogleWalletJWT example_platform google_inline jane acme 1700000000000)"
    by simp_all
  from key_material_forms [where P = example_platform and gcfg = google_inline
      and scfg = samsung_inline and BASE_URL = None
      and c = jane and co = acme and now = 1700000000000] a gi si
  have 5: "ReadFile ''service-account-json'' \<notin>
     set (snd (generateGoogleWalletJWT example_platform google_inline jane acme 1700000000000))"
    and 6: "hd (snd (generateSamsungWalletToken example_platform samsung_inline None jane acme 1700000000000)) =
     ImportKey (Some ''pem-text'')"
    by simp_all
  from a b f gi gp si 1 2 3 4 5 6 show ?thesis by simp
qed

text \<open>
  Claim C6 as stated fails for Samsung: configured with the path of a file that holds a
  key \<^verbatim>\<open>importPKCS8\<close> accepts, the builder passes the path itself to \<^verbatim>\<open>importPKCS8\<close> and
  fails, although the same key given inline is accepted.
\<close>

theorem samsung_key_path_rejected:
  "samsung_isConfigured samsung_path \<and>
   privateKey samsung_path = ''/run/secrets/samsung.pem'' \<and>
   readFileSync example_platform ''/run/secrets/samsung.pem'' = Some ''pem-text'' \<and>
   importPKCS8 example_platform (Some ''pem-text'') = Some 1 \<and>
   generateSamsungWalletToken example_platform samsung_path None jane acme 1700000000000 =
     (Inl KeyImportError, [ImportKey (Some ''/run/secrets/samsung.pem''), LogWalletError]) \<and>
   fst (generateSamsungWalletToken example_platform samsung_inline None jane acme 1700000000000) =
     Inr ''signed-token''"
  using example_samsung_path example_samsung_inline
  by (simp add: generateSamsungWalletToken_def import_and_sign_def example_platform_def)

end
